theory Spec2Isabelle
  imports Complex_Main
begin

section \<open>The no-self-assign rule (src/rules/noSelfAssignRule.ts)\<close>

text \<open>
  The rule walks the syntax tree of one source file and reports assignments whose two
  sides are syntactically the same. This theory embeds the rule's functions
  (\<open>Rule.apply\<close>, \<open>walk\<close>, \<open>report\<close>, \<open>isPropertySelfAssigned\<close>, \<open>doCheck\<close>,
  \<open>isSameElementAccess\<close>, \<open>isSameIdentifier\<close>, \<open>isSameMember\<close>, \<open>isSameProperty\<close>)
  and proves properties of them.
\<close>

subsection \<open>Syntax trees\<close>

text \<open>
  A node's source range is the pair of \<open>node.getStart()\<close> and \<open>node.getEnd()\<close>:
  offsets into the text of the source file.
\<close>

type_synonym textRange = "nat \<times> nat"

text \<open>The kinds of the childless tokens and keywords that the trees below contain.\<close>

datatype TokenKind =
    EqualsToken
  | PlusEqualsToken
  | MinusEqualsToken
  | AsteriskEqualsToken
  | AsteriskAsteriskEqualsToken
  | SlashEqualsToken
  | PercentEqualsToken
  | LessThanLessThanEqualsToken
  | GreaterThanGreaterThanEqualsToken
  | GreaterThanGreaterThanGreaterThanEqualsToken
  | AmpersandEqualsToken
  | BarEqualsToken
  | CaretEqualsToken
  | PlusToken
  | CommaToken
  | EqualsEqualsEqualsToken
  | ThisKeyword
  | SuperKeyword
  | NullKeyword
  | PrivateKeyword
  | EndOfFileToken
  | OtherToken nat

text \<open>
  The kinds between \<open>SyntaxKind.FirstLiteralToken\<close> and \<open>SyntaxKind.LastLiteralToken\<close>,
  which is what the type guard \<open>isLiteralExpression\<close> of tsutils accepts.
\<close>

datatype LiteralKind =
    NumericLiteral
  | StringLiteral
  | JsxText
  | RegularExpressionLiteral
  | NoSubstitutionTemplateLiteral

text \<open>The kinds that the rule does not look into; it only walks through their children.\<close>

datatype OtherKind =
    SourceFile
  | ExpressionStatement
  | ParenthesizedExpression
  | CallExpression
  | ClassDeclaration
  | Decorator
  | TypeReference
  | PropertyAssignment
  | OmittedExpression
  | OtherSyntax nat

text \<open>
  The syntax tree, as a tagged union over the kinds that the rule inspects. Every
  constructor starts with the node's source range; the other arguments are the fields the
  rule reads, in the order in which \<open>ts.forEachChild\<close> visits them:
  \<^item> \<open>Identifier\<close>: \<open>text\<close>;
  \<^item> \<open>LiteralExpression\<close>: \<open>kind\<close> and \<open>text\<close> (the literal's value as the scanner
    stores it, without the quotes of a string literal);
  \<^item> \<open>PropertyAccessExpression\<close>: \<open>expression\<close>, \<open>name\<close>;
  \<^item> \<open>ElementAccessExpression\<close>: \<open>expression\<close>, \<open>argumentExpression\<close> (optional);
  \<^item> \<open>ArrayLiteralExpression\<close>: \<open>elements\<close>;
  \<^item> \<open>ObjectLiteralExpression\<close>: \<open>properties\<close>;
  \<^item> \<open>SpreadElement\<close>, \<open>SpreadAssignment\<close>: \<open>expression\<close>;
  \<^item> \<open>ShorthandPropertyAssignment\<close>: \<open>name\<close>, \<open>objectAssignmentInitializer\<close> (optional);
  \<^item> \<open>BinaryExpression\<close>: \<open>left\<close>, \<open>operatorToken\<close>, \<open>right\<close>;
  \<^item> \<open>PropertyDeclaration\<close>: the decorators and modifiers, \<open>name\<close>, the question or
    exclamation token and the type annotation, \<open>initializer\<close> (optional);
  \<^item> \<open>Token\<close>: a token or keyword, without children;
  \<^item> \<open>OtherNode\<close>: a node of any other kind, with its children.
\<close>

datatype node =
    Identifier textRange string
  | LiteralExpression textRange LiteralKind string
  | PropertyAccessExpression textRange node node
  | ElementAccessExpression textRange node "node option"
  | ArrayLiteralExpression textRange "node list"
  | ObjectLiteralExpression textRange "node list"
  | SpreadElement textRange node
  | SpreadAssignment textRange node
  | ShorthandPropertyAssignment textRange node "node option"
  | BinaryExpression textRange node node node
  | PropertyDeclaration textRange "node list" node "node list" "node option"
  | Token textRange TokenKind
  | OtherNode textRange OtherKind "node list"

fun nodeRange :: "node \<Rightarrow> textRange" where
  "nodeRange (Identifier r _) = r"
| "nodeRange (LiteralExpression r _ _) = r"
| "nodeRange (PropertyAccessExpression r _ _) = r"
| "nodeRange (ElementAccessExpression r _ _) = r"
| "nodeRange (ArrayLiteralExpression r _) = r"
| "nodeRange (ObjectLiteralExpression r _) = r"
| "nodeRange (SpreadElement r _) = r"
| "nodeRange (SpreadAssignment r _) = r"
| "nodeRange (ShorthandPropertyAssignment r _ _) = r"
| "nodeRange (BinaryExpression r _ _ _) = r"
| "nodeRange (PropertyDeclaration r _ _ _ _) = r"
| "nodeRange (Token r _) = r"
| "nodeRange (OtherNode r _ _) = r"

text \<open>
  \<open>ts.forEachChild(node, cb)\<close> calls \<open>cb\<close> on each child of \<open>node\<close> in source order (and
  stops early only when \<open>cb\<close> returns a truthy value, which the callback of this rule
  never does). An absent optional child is skipped.
\<close>

fun optionalChild :: "node option \<Rightarrow> node list" where
  "optionalChild None = []"
| "optionalChild (Some n) = [n]"

fun children :: "node \<Rightarrow> node list" where
  "children (Identifier _ _) = []"
| "children (LiteralExpression _ _ _) = []"
| "children (PropertyAccessExpression _ expression name) = [expression, name]"
| "children (ElementAccessExpression _ expression argumentExpression) =
     expression # optionalChild argumentExpression"
| "children (ArrayLiteralExpression _ elements) = elements"
| "children (ObjectLiteralExpression _ properties) = properties"
| "children (SpreadElement _ expression) = [expression]"
| "children (SpreadAssignment _ expression) = [expression]"
| "children (ShorthandPropertyAssignment _ name objectAssignmentInitializer) =
     name # optionalChild objectAssignmentInitializer"
| "children (BinaryExpression _ left operatorToken right) = [left, operatorToken, right]"
| "children (PropertyDeclaration _ modifiers name annotations initializer) =
     modifiers @ name # annotations @ optionalChild initializer"
| "children (Token _ _) = []"
| "children (OtherNode _ _ cs) = cs"

subsection \<open>Type guards and fields\<close>

fun isIdentifier :: "node \<Rightarrow> bool" where
  "isIdentifier (Identifier _ _) = True"
| "isIdentifier _ = False"

fun isLiteralExpression :: "node \<Rightarrow> bool" where
  "isLiteralExpression (LiteralExpression _ _ _) = True"
| "isLiteralExpression _ = False"

fun isPropertyAccessExpression :: "node \<Rightarrow> bool" where
  "isPropertyAccessExpression (PropertyAccessExpression _ _ _) = True"
| "isPropertyAccessExpression _ = False"

fun isElementAccessExpression :: "node \<Rightarrow> bool" where
  "isElementAccessExpression (ElementAccessExpression _ _ _) = True"
| "isElementAccessExpression _ = False"

fun isArrayLiteralExpression :: "node \<Rightarrow> bool" where
  "isArrayLiteralExpression (ArrayLiteralExpression _ _) = True"
| "isArrayLiteralExpression _ = False"

fun isObjectLiteralExpression :: "node \<Rightarrow> bool" where
  "isObjectLiteralExpression (ObjectLiteralExpression _ _) = True"
| "isObjectLiteralExpression _ = False"

fun isSpreadElement :: "node \<Rightarrow> bool" where
  "isSpreadElement (SpreadElement _ _) = True"
| "isSpreadElement _ = False"

fun isSpreadAssignment :: "node \<Rightarrow> bool" where
  "isSpreadAssignment (SpreadAssignment _ _) = True"
| "isSpreadAssignment _ = False"

fun isShorthandPropertyAssignment :: "node \<Rightarrow> bool" where
  "isShorthandPropertyAssignment (ShorthandPropertyAssignment _ _ _) = True"
| "isShorthandPropertyAssignment _ = False"

fun isBinaryExpression :: "node \<Rightarrow> bool" where
  "isBinaryExpression (BinaryExpression _ _ _ _) = True"
| "isBinaryExpression _ = False"

fun isPropertyDeclaration :: "node \<Rightarrow> bool" where
  "isPropertyDeclaration (PropertyDeclaration _ _ _ _ _) = True"
| "isPropertyDeclaration _ = False"

text \<open>
  \<open>node.kind === ts.SyntaxKind.EqualsToken\<close> and \<open>node.kind === ts.SyntaxKind.ThisKeyword\<close>.
\<close>

fun isKind :: "TokenKind \<Rightarrow> node \<Rightarrow> bool" where
  "isKind k (Token _ k') = (k' = k)"
| "isKind k _ = False"

text \<open>
  The field \<open>text\<close> of a node: identifiers and literals have one; reading it from any other
  node gives \<open>undefined\<close>, here \<open>None\<close>. (The rule reads it without a type guard only from
  the \<open>name\<close> of a property access, which the parser makes an identifier.)
\<close>

fun text_of :: "node \<Rightarrow> string option" where
  "text_of (Identifier _ t) = Some t"
| "text_of (LiteralExpression _ _ t) = Some t"
| "text_of _ = None"

subsection \<open>Rule arguments, context and findings\<close>

text \<open>
  The rule arguments come from the linter's configuration file, so they are JSON values.
  \<open>Rule.apply\<close> takes the first one as the options without looking at it (the source
  disables the lint \<open>no-unsafe-any\<close> there), so the options of a run are any JSON value.
  An object is the list of its properties, looked up by \<open>map_of\<close>.
\<close>

datatype jsvalue =
    JNull
  | JBool bool
  | JNumber real
  | JString string
  | JArray "jsvalue list"
  | JObject "(string \<times> jsvalue) list"

text \<open>The errors the rule can raise: reading a property of \<open>null\<close>.\<close>

datatype error = TypeError

text \<open>JavaScript's truthiness, which \<open>&&\<close> tests.\<close>

fun truthy :: "jsvalue \<Rightarrow> bool" where
  "truthy JNull = False"
| "truthy (JBool b) = b"
| "truthy (JNumber x) = (x \<noteq> 0)"
| "truthy (JString s) = (s \<noteq> [])"
| "truthy (JArray _) = True"
| "truthy (JObject _) = True"

text \<open>
  \<open>ctx.options.props\<close> as the first operand of \<open>&&\<close>: reading the property raises a
  \<open>TypeError\<close> when the options are \<open>null\<close>; any other value without the property,
  a boolean, number, string or array among them, gives \<open>undefined\<close>, which is falsy.
\<close>

fun optionsProps :: "jsvalue \<Rightarrow> error + bool" where
  "optionsProps JNull = Inl TypeError"
| "optionsProps (JObject fields) =
     (case map_of fields ''props'' of None \<Rightarrow> Inr False | Some v \<Rightarrow> Inr (truthy v))"
| "optionsProps _ = Inr False"

text \<open>
  \<open>Lint.WalkContext<Option>\<close>: the source file (its root node and its text) and the options.
  Its list of failures only grows, by \<open>push\<close>; the functions below return the findings they
  add, in the order in which they add them.
\<close>

record WalkContext =
  sourceFile :: node
  sourceText :: string
  options :: jsvalue

record finding =
  range :: textRange
  message :: string

text \<open>
  \<open>node.getText()\<close>: the text of the source file between the node's start and its end.
\<close>

definition getText :: "WalkContext \<Rightarrow> node \<Rightarrow> string" where
  "getText ctx n =
     take (snd (nodeRange n) - fst (nodeRange n)) (drop (fst (nodeRange n)) (sourceText ctx))"

definition FAILURE_STRING :: "string \<Rightarrow> string" where
  "FAILURE_STRING name = ''variable '' @ [CHR 0x27] @ name @ [CHR 0x27] @ '' is assigned to itself.''"

text \<open>
  Modelled from the spec: \<open>ctx.addFailureAtNode\<close> of the linter's \<open>WalkContext\<close>, which is
  not part of the source at hand. It registers a finding, a source range and a message,
  anchored at the given node.
\<close>

definition addFailureAtNode :: "node \<Rightarrow> string \<Rightarrow> finding" where
  "addFailureAtNode n failure = \<lparr>range = nodeRange n, message = failure\<rparr>"

definition report :: "WalkContext \<Rightarrow> node \<Rightarrow> finding" where
  "report ctx n = addFailureAtNode n (FAILURE_STRING (getText ctx n))"

subsection \<open>The comparisons\<close>

definition isSameIdentifier :: "node \<Rightarrow> node \<Rightarrow> bool" where
  "isSameIdentifier left right \<longleftrightarrow>
     isIdentifier left \<and> isIdentifier right \<and> text_of left = text_of right"

fun isSameProperty :: "node \<Rightarrow> node \<Rightarrow> bool" where
  "isSameProperty (PropertyAccessExpression _ _ leftName) (PropertyAccessExpression _ _ rightName) =
     (if text_of leftName = text_of rightName then True else False)"
| "isSameProperty _ _ = False"

fun isSameMember :: "node \<Rightarrow> node \<Rightarrow> bool" where
  "isSameMember (PropertyAccessExpression lrange leftExp lname)
                (PropertyAccessExpression rrange rightExp rname) =
     (if \<not> isSameProperty (PropertyAccessExpression lrange leftExp lname)
             (PropertyAccessExpression rrange rightExp rname)
      then False
      else if isPropertyAccessExpression leftExp \<and> isPropertyAccessExpression rightExp
      then isSameMember leftExp rightExp
      else isIdentifier leftExp \<and> isIdentifier rightExp \<and> text_of leftExp = text_of rightExp)"
| "isSameMember _ _ = False"

fun isSameElementAccess :: "node \<Rightarrow> node \<Rightarrow> bool" where
  "isSameElementAccess (ElementAccessExpression _ leftExp leftArg)
                       (ElementAccessExpression _ rightExp rightArg) =
     (if isSameIdentifier leftExp rightExp
      then (case (leftArg, rightArg) of
              (Some la, Some ra) \<Rightarrow>
                if isIdentifier la \<and> isIdentifier ra then text_of la = text_of ra
                else if isLiteralExpression la \<and> isLiteralExpression ra
                then text_of la = text_of ra
                else False
            | _ \<Rightarrow> False)
      else False)"
| "isSameElementAccess _ _ = False"

fun isPropertySelfAssigned :: "node \<Rightarrow> bool" where
  "isPropertySelfAssigned (PropertyDeclaration _ _ name _ initializer) =
     (case initializer of
        Some (PropertyAccessExpression _ expression initializerName) \<Rightarrow>
          if isIdentifier name
          then isKind ThisKeyword expression \<and> isIdentifier initializerName
               \<and> text_of name = text_of initializerName
          else False
      | _ \<Rightarrow> False)"
| "isPropertySelfAssigned _ = False"

subsection \<open>The pairwise check\<close>

text \<open>
  A statement that raises ends the function it is in, and every caller up to the linter;
  \<open>andThen\<close> runs the rest of a function body only after what came before has returned.
\<close>

definition andThen :: "error + 'a \<Rightarrow> ('a \<Rightarrow> error + 'b) \<Rightarrow> error + 'b" where
  "andThen r f = (case r of Inl e \<Rightarrow> Inl e | Inr x \<Rightarrow> f x)"

lemma andThen_cong [fundef_cong]:
  "r = r' \<Longrightarrow> (\<And>x. r' = Inr x \<Longrightarrow> f x = f' x) \<Longrightarrow> andThen r f = andThen r' f'"
  by (cases r') (simp_all add: andThen_def)

text \<open>
  The loop that sets \<open>startRight\<close>: \<open>i\<close> runs from \<open>right.properties.length - 1\<close> down to
  \<open>0\<close> and stops at the first spread assignment it meets. The second argument of
  \<open>lastSpread\<close> is \<open>i + 1\<close>.
\<close>

fun lastSpread :: "node list \<Rightarrow> nat \<Rightarrow> nat" where
  "lastSpread properties 0 = 0"
| "lastSpread properties (Suc i) =
     (if isSpreadAssignment (properties ! i) then i + 1 else lastSpread properties i)"

definition startRight :: "node list \<Rightarrow> nat" where
  "startRight properties = lastSpread properties (length properties)"

text \<open>The elements of a list are smaller than the list: for the termination proofs.\<close>

lemma size_member: "c \<in> set xs \<Longrightarrow> size c < size_list size xs"
  by (induction xs) auto

lemma size_nth_less: "i < length xs \<Longrightarrow> size (xs ! i) < size_list size xs"
  by (simp add: size_member)

text \<open>
  \<open>doCheck\<close> with its three loops: \<open>checkElements\<close> is the loop over \<open>i\<close> of the array
  case, \<open>checkProperties\<close> the loop over \<open>left.properties\<close> and \<open>checkProperty\<close> the loop
  over \<open>j\<close> inside it. The indices stay below the lengths, so \<open>!\<close> reads inside the lists.
  Both tests of \<open>ctx.options.props\<close> read the same value; it is read once, at the first.
\<close>

function doCheck :: "WalkContext \<Rightarrow> node option \<Rightarrow> node option \<Rightarrow> error + finding list"
  and checkElements :: "WalkContext \<Rightarrow> node list \<Rightarrow> node list \<Rightarrow> nat \<Rightarrow> error + finding list"
  and checkProperties :: "WalkContext \<Rightarrow> node list \<Rightarrow> node list \<Rightarrow> nat \<Rightarrow> error + finding list"
  and checkProperty :: "WalkContext \<Rightarrow> node \<Rightarrow> node list \<Rightarrow> nat \<Rightarrow> error + finding list"
where
  "doCheck ctx None right = Inr []"
| "doCheck ctx (Some left) None = Inr []"
| "doCheck ctx (Some left) (Some right) =
     (let same = (if isSameIdentifier left right then [report ctx right] else []) in
      andThen
        (case left of
           ArrayLiteralExpression _ leftElements \<Rightarrow>
             (case right of
                ArrayLiteralExpression _ rightElements \<Rightarrow>
                  checkElements ctx leftElements rightElements 0
              | _ \<Rightarrow> Inr [])
         | _ \<Rightarrow> Inr [])
        (\<lambda>fromElements.
      andThen
        (case left of
           ObjectLiteralExpression _ leftProperties \<Rightarrow>
             (case right of
                ObjectLiteralExpression _ rightProperties \<Rightarrow>
                  checkProperties ctx leftProperties rightProperties (startRight rightProperties)
              | _ \<Rightarrow> Inr [])
         | _ \<Rightarrow> Inr [])
        (\<lambda>fromProperties.
      andThen
        (case left of
           ShorthandPropertyAssignment _ leftName None \<Rightarrow>
             (case right of
                ShorthandPropertyAssignment _ rightName _ \<Rightarrow>
                  doCheck ctx (Some leftName) (Some rightName)
              | _ \<Rightarrow> Inr [])
         | _ \<Rightarrow> Inr [])
        (\<lambda>fromNames.
      andThen (optionsProps (options ctx))
        (\<lambda>props.
           if props \<and> isPropertyAccessExpression left \<and> isPropertyAccessExpression right
              \<and> isSameMember left right
           then Inr (same @ fromElements @ fromProperties @ fromNames @ [report ctx right])
           else if props \<and> isElementAccessExpression left \<and> isElementAccessExpression right
              \<and> isSameElementAccess left right
           then Inr (same @ fromElements @ fromProperties @ fromNames @ [report ctx right])
           else Inr (same @ fromElements @ fromProperties @ fromNames))))))"
| "checkElements ctx leftElements rightElements i =
     (if i < min (length leftElements) (length rightElements)
      then andThen (doCheck ctx (Some (leftElements ! i)) (Some (rightElements ! i)))
             (\<lambda>found.
                if isSpreadElement (rightElements ! i) then Inr found
                else andThen (checkElements ctx leftElements rightElements (i + 1))
                       (\<lambda>rest. Inr (found @ rest)))
      else Inr [])"
| "checkProperties ctx [] rightProperties start = Inr []"
| "checkProperties ctx (leftProp # leftProperties) rightProperties start =
     andThen (checkProperty ctx leftProp rightProperties start)
       (\<lambda>found. andThen (checkProperties ctx leftProperties rightProperties start)
          (\<lambda>rest. Inr (found @ rest)))"
| "checkProperty ctx leftProp rightProperties j =
     (if j < length rightProperties
      then andThen (doCheck ctx (Some leftProp) (Some (rightProperties ! j)))
             (\<lambda>found. andThen (checkProperty ctx leftProp rightProperties (j + 1))
                (\<lambda>rest. Inr (found @ rest)))
      else Inr [])"
  by pat_completeness auto

termination
  by (relation "inv_image (less_than <*lex*> less_than)
      (\<lambda>x. case x of
             Inl (Inl (ctx, left, right)) \<Rightarrow> (2 * size_option size left, 0)
           | Inl (Inr (ctx, leftElements, rightElements, i)) \<Rightarrow>
               (2 * Suc (size_list size leftElements), length leftElements - i)
           | Inr (Inl (ctx, leftProperties, rightProperties, start)) \<Rightarrow>
               (2 * Suc (size_list size leftProperties), 0)
           | Inr (Inr (ctx, leftProp, rightProperties, j)) \<Rightarrow>
               (2 * Suc (size leftProp) + 1, length rightProperties - j))")
    (auto simp: size_nth_less)

subsection \<open>The tree walker and the rule\<close>

text \<open>
  \<open>ts.forEachChild(node, cb)\<close>, for a callback that registers findings and returns nothing:
  the callback runs on each child in turn.
\<close>

fun visitEach :: "(node \<Rightarrow> error + finding list) \<Rightarrow> node list \<Rightarrow> error + finding list" where
  "visitEach cb [] = Inr []"
| "visitEach cb (child # rest) =
     andThen (cb child) (\<lambda>found. andThen (visitEach cb rest) (\<lambda>more. Inr (found @ more)))"

definition forEachChild :: "node \<Rightarrow> (node \<Rightarrow> error + finding list) \<Rightarrow> error + finding list" where
  "forEachChild n cb = visitEach cb (children n)"

lemma visitEach_cong [fundef_cong]:
  "ns = ns' \<Longrightarrow> (\<And>c. c \<in> set ns' \<Longrightarrow> cb c = cb' c) \<Longrightarrow> visitEach cb ns = visitEach cb' ns'"
  by (induction ns' arbitrary: ns) (auto intro: andThen_cong)

lemma forEachChild_cong [fundef_cong]:
  "n = n' \<Longrightarrow> (\<And>c. c \<in> set (children n') \<Longrightarrow> cb c = cb' c)
     \<Longrightarrow> forEachChild n cb = forEachChild n' cb'"
  unfolding forEachChild_def by (rule visitEach_cong) auto

lemma size_optionalChild: "c \<in> set (optionalChild x) \<Longrightarrow> size c < size_option size x"
  by (cases x) auto

lemma size_children: "c \<in> set (children n) \<Longrightarrow> size c < size n"
  by (cases n) (auto dest: size_optionalChild size_member)


text \<open>
  The callback \<open>recur\<close> of \<open>walk\<close>. The non-null assertion \<open>node.initializer!\<close> is behind
  \<open>isPropertySelfAssigned\<close>, which holds only of a declaration that has an initializer.
\<close>

function recur :: "WalkContext \<Rightarrow> node \<Rightarrow> error + finding list" where
  "recur ctx n =
     andThen
       (case n of
          BinaryExpression _ left operatorToken right \<Rightarrow>
            if isKind EqualsToken operatorToken then doCheck ctx (Some left) (Some right)
            else Inr []
        | _ \<Rightarrow> Inr [])
       (\<lambda>checked.
          let reported =
            (case n of
               PropertyDeclaration _ _ _ _ (Some initializer) \<Rightarrow>
                 if isPropertySelfAssigned n then [report ctx initializer] else []
             | _ \<Rightarrow> [])
          in andThen (forEachChild n (recur ctx)) (\<lambda>below. Inr (checked @ reported @ below)))"
  by pat_completeness auto
termination
  by (relation "measure (\<lambda>(ctx, n). size n)") (auto simp: size_children)

definition walk :: "WalkContext \<Rightarrow> error + finding list" where
  "walk ctx = forEachChild (sourceFile ctx) (recur ctx)"

text \<open>
  Modelled from the spec: \<open>applyWithFunction\<close> of the linter's \<open>AbstractRule\<close>, which is not
  part of the source at hand. It runs the walker on a context made of the source file and
  the options, and returns the findings that the walker registered.
\<close>

definition applyWithFunction ::
  "node \<Rightarrow> string \<Rightarrow> (WalkContext \<Rightarrow> error + finding list) \<Rightarrow> jsvalue \<Rightarrow> error + finding list" where
  "applyWithFunction file fileText walkFn opt =
     walkFn \<lparr>sourceFile = file, sourceText = fileText, options = opt\<rparr>"

text \<open>\<open>Rule.apply\<close>; the source file is given as its root node and its text.\<close>

definition Rule_apply :: "jsvalue list \<Rightarrow> node \<Rightarrow> string \<Rightarrow> error + finding list" where
  "Rule_apply ruleArguments file fileText =
     (let opt = (if length ruleArguments > 0 then ruleArguments ! 0
                 else JObject [(''props'', JBool True)])
      in applyWithFunction file fileText walk opt)"

section \<open>Example programs\<close>

text \<open>
  Each program is the text of a source file and the tree that the parser builds for it,
  with the source ranges of the nodes.
\<close>

text \<open>
  The statement \<open>x op x;\<close> for an identifier \<open>x\<close> and the assignment operator \<open>op\<close>,
  whose token has the kind \<open>k\<close>.
\<close>

definition src_assignment :: "string \<Rightarrow> string \<Rightarrow> string" where
  "src_assignment x op = x @ '' '' @ op @ '' '' @ x @ '';''"

definition ast_assignment :: "string \<Rightarrow> string \<Rightarrow> TokenKind \<Rightarrow> node" where
  "ast_assignment x op k =
     OtherNode (0, 2 * length x + length op + 3) SourceFile
       [OtherNode (0, 2 * length x + length op + 3) ExpressionStatement
          [BinaryExpression (0, 2 * length x + length op + 2)
             (Identifier (0, length x) x)
             (Token (length x + 1, length x + length op + 1) k)
             (Identifier (length x + length op + 2, 2 * length x + length op + 2) x)],
        Token (2 * length x + length op + 3, 2 * length x + length op + 3) EndOfFileToken]"

text \<open>An object pattern assigned from an object literal.\<close>

definition src_obj_plain :: string where
  \<open>src_obj_plain = ''({a, b} = {a, b});''\<close>

definition ast_obj_plain :: node where
  \<open>ast_obj_plain =
     OtherNode (0, 18) SourceFile
       [OtherNode (0, 18) ExpressionStatement
          [OtherNode (0, 17) ParenthesizedExpression
             [BinaryExpression (1, 16)
                (ObjectLiteralExpression (1, 7)
                   [ShorthandPropertyAssignment (2, 3) (Identifier (2, 3) ''a'') None,
                    ShorthandPropertyAssignment (5, 6) (Identifier (5, 6) ''b'') None])
                (Token (8, 9) EqualsToken)
                (ObjectLiteralExpression (10, 16)
                   [ShorthandPropertyAssignment (11, 12) (Identifier (11, 12) ''a'') None,
                    ShorthandPropertyAssignment (14, 15) (Identifier (14, 15) ''b'') None])]],
        Token (18, 18) EndOfFileToken]\<close>

text \<open>The same with a spread between the two properties of the literal.\<close>

definition src_obj_spread_mid :: string where
  \<open>src_obj_spread_mid = ''({a, b} = {a, ...x, b});''\<close>

definition ast_obj_spread_mid :: node where
  \<open>ast_obj_spread_mid =
     OtherNode (0, 24) SourceFile
       [OtherNode (0, 24) ExpressionStatement
          [OtherNode (0, 23) ParenthesizedExpression
             [BinaryExpression (1, 22)
                (ObjectLiteralExpression (1, 7)
                   [ShorthandPropertyAssignment (2, 3) (Identifier (2, 3) ''a'') None,
                    ShorthandPropertyAssignment (5, 6) (Identifier (5, 6) ''b'') None])
                (Token (8, 9) EqualsToken)
                (ObjectLiteralExpression (10, 22)
                   [ShorthandPropertyAssignment (11, 12) (Identifier (11, 12) ''a'') None,
                    SpreadAssignment (14, 18)
                      (Identifier (17, 18) ''x''),
                    ShorthandPropertyAssignment (20, 21) (Identifier (20, 21) ''b'') None])]],
        Token (24, 24) EndOfFileToken]\<close>

text \<open>The same with the spread before both properties.\<close>

definition src_obj_spread_first :: string where
  \<open>src_obj_spread_first = ''({a, b} = {...x, a, b});''\<close>

definition ast_obj_spread_first :: node where
  \<open>ast_obj_spread_first =
     OtherNode (0, 24) SourceFile
       [OtherNode (0, 24) ExpressionStatement
          [OtherNode (0, 23) ParenthesizedExpression
             [BinaryExpression (1, 22)
                (ObjectLiteralExpression (1, 7)
                   [ShorthandPropertyAssignment (2, 3) (Identifier (2, 3) ''a'') None,
                    ShorthandPropertyAssignment (5, 6) (Identifier (5, 6) ''b'') None])
                (Token (8, 9) EqualsToken)
                (ObjectLiteralExpression (10, 22)
                   [SpreadAssignment (11, 15)
                      (Identifier (14, 15) ''x''),
                    ShorthandPropertyAssignment (17, 18) (Identifier (17, 18) ''a'') None,
                    ShorthandPropertyAssignment (20, 21) (Identifier (20, 21) ''b'') None])]],
        Token (24, 24) EndOfFileToken]\<close>

text \<open>An array pattern assigned from an array literal.\<close>

definition src_arr_plain :: string where
  \<open>src_arr_plain = ''[a, b] = [a, b];''\<close>

definition ast_arr_plain :: node where
  \<open>ast_arr_plain =
     OtherNode (0, 16) SourceFile
       [OtherNode (0, 16) ExpressionStatement
          [BinaryExpression (0, 15)
             (ArrayLiteralExpression (0, 6)
                [Identifier (1, 2) ''a'',
                 Identifier (4, 5) ''b''])
             (Token (7, 8) EqualsToken)
             (ArrayLiteralExpression (9, 15)
                [Identifier (10, 11) ''a'',
                 Identifier (13, 14) ''b''])],
        Token (16, 16) EndOfFileToken]\<close>

text \<open>The same with a spread as the second element of the literal.\<close>

definition src_arr_spread :: string where
  \<open>src_arr_spread = ''[a, b] = [a, ...rest];''\<close>

definition ast_arr_spread :: node where
  \<open>ast_arr_spread =
     OtherNode (0, 22) SourceFile
       [OtherNode (0, 22) ExpressionStatement
          [BinaryExpression (0, 21)
             (ArrayLiteralExpression (0, 6)
                [Identifier (1, 2) ''a'',
                 Identifier (4, 5) ''b''])
             (Token (7, 8) EqualsToken)
             (ArrayLiteralExpression (9, 21)
                [Identifier (10, 11) ''a'',
                 SpreadElement (13, 20)
                   (Identifier (16, 20) ''rest'')])],
        Token (22, 22) EndOfFileToken]\<close>

text \<open>A spread first, with a self-assignment inside the spread expression.\<close>

definition src_arr_spread_nested :: string where
  \<open>src_arr_spread_nested = ''[a, b] = [...(x = x), b];''\<close>

definition ast_arr_spread_nested :: node where
  \<open>ast_arr_spread_nested =
     OtherNode (0, 25) SourceFile
       [OtherNode (0, 25) ExpressionStatement
          [BinaryExpression (0, 24)
             (ArrayLiteralExpression (0, 6)
                [Identifier (1, 2) ''a'',
                 Identifier (4, 5) ''b''])
             (Token (7, 8) EqualsToken)
             (ArrayLiteralExpression (9, 24)
                [SpreadElement (10, 20)
                   (OtherNode (13, 20) ParenthesizedExpression
                      [BinaryExpression (14, 19)
                         (Identifier (14, 15) ''x'')
                         (Token (16, 17) EqualsToken)
                         (Identifier (18, 19) ''x'')]),
                 Identifier (22, 23) ''b''])],
        Token (25, 25) EndOfFileToken]\<close>

text \<open>A chain of property accesses assigned to itself.\<close>

definition src_member :: string where
  \<open>src_member = ''a.b.c = a.b.c;''\<close>

definition ast_member :: node where
  \<open>ast_member =
     OtherNode (0, 14) SourceFile
       [OtherNode (0, 14) ExpressionStatement
          [BinaryExpression (0, 13)
             (PropertyAccessExpression (0, 5)
                (PropertyAccessExpression (0, 3)
                   (Identifier (0, 1) ''a'')
                   (Identifier (2, 3) ''b''))
                (Identifier (4, 5) ''c''))
             (Token (6, 7) EqualsToken)
             (PropertyAccessExpression (8, 13)
                (PropertyAccessExpression (8, 11)
                   (Identifier (8, 9) ''a'')
                   (Identifier (10, 11) ''b''))
                (Identifier (12, 13) ''c''))],
        Token (14, 14) EndOfFileToken]\<close>

text \<open>An element access with a string literal key, assigned to itself.\<close>

definition src_elem_string :: string where
  \<open>src_elem_string = ''a["x"] = a["x"];''\<close>

definition ast_elem_string :: node where
  \<open>ast_elem_string =
     OtherNode (0, 16) SourceFile
       [OtherNode (0, 16) ExpressionStatement
          [BinaryExpression (0, 15)
             (ElementAccessExpression (0, 6)
                (Identifier (0, 1) ''a'')
                (Some (LiteralExpression (2, 5) StringLiteral ''x'')))
             (Token (7, 8) EqualsToken)
             (ElementAccessExpression (9, 15)
                (Identifier (9, 10) ''a'')
                (Some (LiteralExpression (11, 14) StringLiteral ''x'')))],
        Token (16, 16) EndOfFileToken]\<close>

text \<open>Element accesses with different identifiers as keys.\<close>

definition src_elem_idents :: string where
  \<open>src_elem_idents = ''a[x] = a[y];''\<close>

definition ast_elem_idents :: node where
  \<open>ast_elem_idents =
     OtherNode (0, 12) SourceFile
       [OtherNode (0, 12) ExpressionStatement
          [BinaryExpression (0, 11)
             (ElementAccessExpression (0, 4)
                (Identifier (0, 1) ''a'')
                (Some (Identifier (2, 3) ''x'')))
             (Token (5, 6) EqualsToken)
             (ElementAccessExpression (7, 11)
                (Identifier (7, 8) ''a'')
                (Some (Identifier (9, 10) ''y'')))],
        Token (12, 12) EndOfFileToken]\<close>

text \<open>Element accesses with calls as keys.\<close>

definition src_elem_calls :: string where
  \<open>src_elem_calls = ''a[f()] = a[f()];''\<close>

definition ast_elem_calls :: node where
  \<open>ast_elem_calls =
     OtherNode (0, 16) SourceFile
       [OtherNode (0, 16) ExpressionStatement
          [BinaryExpression (0, 15)
             (ElementAccessExpression (0, 6)
                (Identifier (0, 1) ''a'')
                (Some (OtherNode (2, 5) CallExpression
                         [Identifier (2, 3) ''f''])))
             (Token (7, 8) EqualsToken)
             (ElementAccessExpression (9, 15)
                (Identifier (9, 10) ''a'')
                (Some (OtherNode (11, 14) CallExpression
                         [Identifier (11, 12) ''f''])))],
        Token (16, 16) EndOfFileToken]\<close>

text \<open>The same key in single quotes on the left and in double quotes on the right.\<close>

definition src_elem_quotes :: string where
  \<open>src_elem_quotes = ''a['x'] = a["x"];''\<close>

definition ast_elem_quotes :: node where
  \<open>ast_elem_quotes =
     OtherNode (0, 16) SourceFile
       [OtherNode (0, 16) ExpressionStatement
          [BinaryExpression (0, 15)
             (ElementAccessExpression (0, 6)
                (Identifier (0, 1) ''a'')
                (Some (LiteralExpression (2, 5) StringLiteral ''x'')))
             (Token (7, 8) EqualsToken)
             (ElementAccessExpression (9, 15)
                (Identifier (9, 10) ''a'')
                (Some (LiteralExpression (11, 14) StringLiteral ''x'')))],
        Token (16, 16) EndOfFileToken]\<close>

text \<open>A numeric literal key on the left, a string literal key with the same text on the right.\<close>

definition src_elem_number_string :: string where
  \<open>src_elem_number_string = ''a[1] = a["1"];''\<close>

definition ast_elem_number_string :: node where
  \<open>ast_elem_number_string =
     OtherNode (0, 14) SourceFile
       [OtherNode (0, 14) ExpressionStatement
          [BinaryExpression (0, 13)
             (ElementAccessExpression (0, 4)
                (Identifier (0, 1) ''a'')
                (Some (LiteralExpression (2, 3) NumericLiteral ''1'')))
             (Token (5, 6) EqualsToken)
             (ElementAccessExpression (7, 13)
                (Identifier (7, 8) ''a'')
                (Some (LiteralExpression (9, 12) StringLiteral ''1'')))],
        Token (14, 14) EndOfFileToken]\<close>

text \<open>An identifier assigned from an object literal.\<close>

definition src_shape_mismatch :: string where
  \<open>src_shape_mismatch = ''a = {a};''\<close>

definition ast_shape_mismatch :: node where
  \<open>ast_shape_mismatch =
     OtherNode (0, 8) SourceFile
       [OtherNode (0, 8) ExpressionStatement
          [BinaryExpression (0, 7)
             (Identifier (0, 1) ''a'')
             (Token (2, 3) EqualsToken)
             (ObjectLiteralExpression (4, 7)
                [ShorthandPropertyAssignment (5, 6) (Identifier (5, 6) ''a'') None])],
        Token (8, 8) EndOfFileToken]\<close>

text \<open>A class field initialised from the property \<open>foo\<close> of \<open>this\<close>.\<close>

definition src_field_self :: string where
  \<open>src_field_self = ''class C { foo = this.foo; }''\<close>

definition ast_field_self :: node where
  \<open>ast_field_self =
     OtherNode (0, 27) SourceFile
       [OtherNode (0, 27) ClassDeclaration
          [Identifier (6, 7) ''C'',
           PropertyDeclaration (10, 25) []
             (Identifier (10, 13) ''foo'') []
             (Some (PropertyAccessExpression (16, 24)
                      (Token (16, 20) ThisKeyword)
                      (Identifier (21, 24) ''foo'')))],
        Token (27, 27) EndOfFileToken]\<close>









text \<open>Element accesses with string literal keys of different text.\<close>

definition src_elem_other_text :: string where
  \<open>src_elem_other_text = ''a["x"] = a["y"];''\<close>

definition ast_elem_other_text :: node where
  \<open>ast_elem_other_text =
     OtherNode (0, 16) SourceFile
       [OtherNode (0, 16) ExpressionStatement
          [BinaryExpression (0, 15)
             (ElementAccessExpression (0, 6)
                (Identifier (0, 1) ''a'')
                (Some (LiteralExpression (2, 5) StringLiteral ''x'')))
             (Token (7, 8) EqualsToken)
             (ElementAccessExpression (9, 15)
                (Identifier (9, 10) ''a'')
                (Some (LiteralExpression (11, 14) StringLiteral ''y'')))],
        Token (16, 16) EndOfFileToken]\<close>

section \<open>Trees without accesses\<close>

text \<open>
  A tree without property accesses and element accesses: neither the node nor any node below
  it is one. This is a notion of the properties below, not of the source.
\<close>

function withoutAccess :: "node \<Rightarrow> bool" where
  "withoutAccess n \<longleftrightarrow>
     \<not> isPropertyAccessExpression n \<and> \<not> isElementAccessExpression n
     \<and> list_all withoutAccess (children n)"
  by pat_completeness auto
termination
  by (relation "measure size") (auto simp: size_children)

section \<open>Properties\<close>

subsection \<open>The pairwise check, shape by shape\<close>

lemma andThen_Inr [simp]: "andThen (Inr x) f = f x"
  by (simp add: andThen_def)

lemma andThen_Inl [simp]: "andThen (Inl e) f = Inl e"
  by (simp add: andThen_def)

declare doCheck.simps(3) [simp del] checkElements.simps [simp del]
  checkProperty.simps [simp del] recur.simps [simp del]

lemma doCheck_Identifier:
  "doCheck ctx (Some (Identifier r t)) (Some right) =
     andThen (optionsProps (options ctx))
       (\<lambda>props. if isSameIdentifier (Identifier r t) right
                 then Inr [report ctx right] else Inr [])"
  by (simp add: doCheck.simps(3))

lemma doCheck_arrays:
  "doCheck ctx (Some (ArrayLiteralExpression r1 ls)) (Some (ArrayLiteralExpression r2 rs)) =
     andThen (checkElements ctx ls rs 0)
       (\<lambda>found. andThen (optionsProps (options ctx)) (\<lambda>props. Inr found))"
  by (simp add: doCheck.simps(3) isSameIdentifier_def)

lemma doCheck_array_other:
  "\<not> isArrayLiteralExpression right \<Longrightarrow>
   doCheck ctx (Some (ArrayLiteralExpression r1 ls)) (Some right) =
     andThen (optionsProps (options ctx)) (\<lambda>props. Inr [])"
  by (cases right) (simp_all add: doCheck.simps(3) isSameIdentifier_def)

lemma doCheck_objects:
  "doCheck ctx (Some (ObjectLiteralExpression r1 lps)) (Some (ObjectLiteralExpression r2 rps)) =
     andThen (checkProperties ctx lps rps (startRight rps))
       (\<lambda>found. andThen (optionsProps (options ctx)) (\<lambda>props. Inr found))"
  by (simp add: doCheck.simps(3) isSameIdentifier_def)

lemma doCheck_object_other:
  "\<not> isObjectLiteralExpression right \<Longrightarrow>
   doCheck ctx (Some (ObjectLiteralExpression r1 lps)) (Some right) =
     andThen (optionsProps (options ctx)) (\<lambda>props. Inr [])"
  by (cases right) (simp_all add: doCheck.simps(3) isSameIdentifier_def)

lemma doCheck_shorthands:
  "doCheck ctx (Some (ShorthandPropertyAssignment r1 leftName None))
               (Some (ShorthandPropertyAssignment r2 rightName rightInit)) =
     andThen (doCheck ctx (Some leftName) (Some rightName))
       (\<lambda>found. andThen (optionsProps (options ctx)) (\<lambda>props. Inr found))"
  by (simp add: doCheck.simps(3) isSameIdentifier_def)

lemma doCheck_shorthand_other:
  "leftInit \<noteq> None \<or> \<not> isShorthandPropertyAssignment right \<Longrightarrow>
   doCheck ctx (Some (ShorthandPropertyAssignment r1 leftName leftInit)) (Some right) =
     andThen (optionsProps (options ctx)) (\<lambda>props. Inr [])"
  by (cases right; cases leftInit) (simp_all add: doCheck.simps(3) isSameIdentifier_def)

lemma doCheck_PropertyAccessExpression:
  "doCheck ctx (Some (PropertyAccessExpression r e n)) (Some right) =
     andThen (optionsProps (options ctx))
       (\<lambda>props. if props \<and> isSameMember (PropertyAccessExpression r e n) right
                 then Inr [report ctx right] else Inr [])"
  by (cases right) (auto simp: doCheck.simps(3) isSameIdentifier_def cong: if_cong)

lemma doCheck_ElementAccessExpression:
  "doCheck ctx (Some (ElementAccessExpression r e a)) (Some right) =
     andThen (optionsProps (options ctx))
       (\<lambda>props. if props \<and> isSameElementAccess (ElementAccessExpression r e a) right
                 then Inr [report ctx right] else Inr [])"
  by (cases right) (auto simp: doCheck.simps(3) isSameIdentifier_def cong: if_cong)

lemma doCheck_other_kinds:
  "doCheck ctx (Some (LiteralExpression r k t)) (Some right) =
     andThen (optionsProps (options ctx)) (\<lambda>props. Inr [])"
  "doCheck ctx (Some (SpreadElement r e)) (Some right) =
     andThen (optionsProps (options ctx)) (\<lambda>props. Inr [])"
  "doCheck ctx (Some (SpreadAssignment r e)) (Some right) =
     andThen (optionsProps (options ctx)) (\<lambda>props. Inr [])"
  "doCheck ctx (Some (BinaryExpression r a b c)) (Some right) =
     andThen (optionsProps (options ctx)) (\<lambda>props. Inr [])"
  "doCheck ctx (Some (PropertyDeclaration r ms n as i)) (Some right) =
     andThen (optionsProps (options ctx)) (\<lambda>props. Inr [])"
  "doCheck ctx (Some (Token r tk)) (Some right) =
     andThen (optionsProps (options ctx)) (\<lambda>props. Inr [])"
  "doCheck ctx (Some (OtherNode r ok cs)) (Some right) =
     andThen (optionsProps (options ctx)) (\<lambda>props. Inr [])"
  by (simp_all add: doCheck.simps(3) isSameIdentifier_def)

lemma doCheck_returns:
  "optionsProps (options ctx) = Inr p \<Longrightarrow> \<exists>fs. doCheck ctx left right = Inr fs"
  "optionsProps (options ctx) = Inr p \<Longrightarrow> \<exists>fs. checkElements ctx ls rs i = Inr fs"
  "optionsProps (options ctx) = Inr p \<Longrightarrow> \<exists>fs. checkProperties ctx lps rps start = Inr fs"
  "optionsProps (options ctx) = Inr p \<Longrightarrow> \<exists>fs. checkProperty ctx lp rps j = Inr fs"
proof (induction ctx left right and ctx ls rs i and ctx lps rps start and ctx lp rps j
    rule: doCheck_checkElements_checkProperties_checkProperty.induct)
  case (1 ctx right)
  then show ?case by simp
next
  case (2 ctx left)
  then show ?case by simp
next
  case (3 ctx left right)
  note p = \<open>optionsProps (options ctx) = Inr p\<close>
  show ?case
  proof (cases left)
    case (ArrayLiteralExpression r1 ls)
    show ?thesis
    proof (cases right)
      case (ArrayLiteralExpression r2 rs)
      have "\<exists>fs. checkElements ctx ls rs 0 = Inr fs"
        using 3(1) [OF refl \<open>left = _\<close> \<open>right = _\<close> p] .
      then show ?thesis
        using p \<open>left = _\<close> \<open>right = _\<close> by (auto simp: doCheck_arrays)
    qed (use p \<open>left = _\<close> in \<open>simp_all add: doCheck_array_other\<close>)
  next
    case (ObjectLiteralExpression r1 lps)
    show ?thesis
    proof (cases right)
      case (ObjectLiteralExpression r2 rps)
      have "\<exists>fs. checkProperties ctx lps rps (startRight rps) = Inr fs"
        using 3(2) \<open>left = _\<close> \<open>right = _\<close> p by simp
      then show ?thesis
        using p \<open>left = _\<close> \<open>right = _\<close> by (auto simp: doCheck_objects)
    qed (use p \<open>left = _\<close> in \<open>simp_all add: doCheck_object_other\<close>)
  next
    case (ShorthandPropertyAssignment r1 leftName leftInit)
    show ?thesis
    proof (cases "leftInit = None \<and> isShorthandPropertyAssignment right")
      case True
      then obtain r2 rightName rightInit
        where right: "right = ShorthandPropertyAssignment r2 rightName rightInit"
        by (cases right) auto
      have "\<exists>fs. doCheck ctx (Some leftName) (Some rightName) = Inr fs"
        using 3(3) \<open>left = _\<close> right True p by simp
      then show ?thesis
        using p \<open>left = _\<close> right True by (auto simp: doCheck_shorthands)
    next
      case False
      then show ?thesis
        using p \<open>left = _\<close> by (simp add: doCheck_shorthand_other)
    qed
  qed (use p in \<open>simp_all add: doCheck_Identifier doCheck_PropertyAccessExpression
        doCheck_ElementAccessExpression doCheck_other_kinds\<close>)
next
  case (4 ctx leftElements rightElements i)
  then show ?case
    by (subst checkElements.simps) (auto simp: andThen_def split: sum.splits)
next
  case (5 ctx rightProperties start)
  then show ?case by simp
next
  case (6 ctx leftProp leftProperties rightProperties start)
  then show ?case by (auto simp: andThen_def split: sum.splits)
next
  case (7 ctx leftProp rightProperties j)
  then show ?case
    by (subst checkProperty.simps) (auto simp: andThen_def split: sum.splits)
qed

subsection \<open>The loops of the pairwise check\<close>

lemma lastSpread_le: "lastSpread ps n \<le> n"
  by (induction n) auto

lemma lastSpread_after:
  "lastSpread ps n \<le> j \<Longrightarrow> j < n \<Longrightarrow> \<not> isSpreadAssignment (ps ! j)"
  by (induction n) (auto simp: less_Suc_eq split: if_splits)

lemma lastSpread_at:
  "lastSpread ps n \<noteq> 0 \<Longrightarrow> isSpreadAssignment (ps ! (lastSpread ps n - 1))"
  by (induction n) (auto split: if_splits)

lemma lastSpread_none:
  "(\<forall>j<n. \<not> isSpreadAssignment (ps ! j)) \<Longrightarrow> lastSpread ps n = 0"
  by (induction n) auto

lemma lastSpread_last:
  "j < n \<Longrightarrow> isSpreadAssignment (ps ! j) \<Longrightarrow>
   (\<forall>k. j < k \<and> k < n \<longrightarrow> \<not> isSpreadAssignment (ps ! k)) \<Longrightarrow> lastSpread ps n = j + 1"
proof (induction n)
  case 0
  then show ?case by simp
next
  case (Suc n)
  show ?case
  proof (cases "j = n")
    case True
    with Suc.prems show ?thesis by simp
  next
    case False
    with Suc.prems have "j < n" "\<not> isSpreadAssignment (ps ! n)" by auto
    with Suc show ?thesis by simp
  qed
qed

lemma checkProperty_eq:
  assumes "optionsProps (options ctx) = Inr p"
  shows "checkProperty ctx lp rps j =
    Inr (concat (map (\<lambda>rp. projr (doCheck ctx (Some lp) (Some rp))) (drop j rps)))"
proof (induction "length rps - j" arbitrary: j)
  case 0
  then show ?case by (simp add: checkProperty.simps)
next
  case (Suc n)
  then have j: "j < length rps" and n: "n = length rps - (j + 1)" by auto
  obtain fs where fs: "doCheck ctx (Some lp) (Some (rps ! j)) = Inr fs"
    using doCheck_returns(1) [OF assms] by blast
  have "drop j rps = rps ! j # drop (j + 1) rps"
    using j by (simp add: Cons_nth_drop_Suc)
  then show ?case
    using j fs Suc.hyps(1) [OF n] by (subst checkProperty.simps) simp
qed

lemma checkProperties_eq:
  assumes "optionsProps (options ctx) = Inr p"
  shows "checkProperties ctx lps rps start =
    Inr (concat (map (\<lambda>lp. concat (map (\<lambda>rp. projr (doCheck ctx (Some lp) (Some rp)))
                                      (drop start rps))) lps))"
  by (induction lps) (simp_all add: checkProperty_eq [OF assms])

lemma checkElements_eq:
  assumes "optionsProps (options ctx) = Inr p"
  shows "checkElements ctx ls rs i =
    Inr (concat (map (\<lambda>(l, r). projr (doCheck ctx (Some l) (Some r)))
      (take (Suc (length (takeWhile (\<lambda>r. \<not> isSpreadElement r) (drop i rs))))
         (drop i (zip ls rs)))))"
proof (induction "min (length ls) (length rs) - i" arbitrary: i)
  case 0
  then have le: "min (length ls) (length rs) \<le> i" by linarith
  then have stop: "\<not> i < min (length ls) (length rs)" by linarith
  from le have "drop i (zip ls rs) = []" by simp
  with stop show ?case
    by (subst checkElements.simps) (simp del: min_less_iff_conj)
next
  case (Suc n)
  then have i: "i < length ls" "i < length rs"
    and n: "n = min (length ls) (length rs) - (i + 1)" by auto
  obtain fs where fs: "doCheck ctx (Some (ls ! i)) (Some (rs ! i)) = Inr fs"
    using doCheck_returns(1) [OF assms] by blast
  have "drop i (zip ls rs) = zip ls rs ! i # drop (Suc i) (zip ls rs)"
    using i by (intro Cons_nth_drop_Suc [symmetric]) simp
  then have "drop i (zip ls rs) = (ls ! i, rs ! i) # drop (i + 1) (zip ls rs)"
    using i by simp
  moreover have "drop i rs = rs ! i # drop (i + 1) rs"
    using i by (simp add: Cons_nth_drop_Suc)
  ultimately show ?case
    using i fs Suc.hyps(1) [OF n] by (subst checkElements.simps) simp
qed

subsection \<open>The walker and the rule\<close>

lemma optionsProps_not_null: "opt \<noteq> JNull \<Longrightarrow> \<exists>p. optionsProps opt = Inr p"
  by (cases opt) (auto split: option.splits)

lemma visitEach_append:
  "visitEach cb (xs @ ys) =
     andThen (visitEach cb xs) (\<lambda>a. andThen (visitEach cb ys) (\<lambda>b. Inr (a @ b)))"
proof (induction xs)
  case Nil
  show ?case by (cases "visitEach cb ys") simp_all
next
  case (Cons x xs)
  show ?case
    by (cases "cb x"; cases "visitEach cb xs"; cases "visitEach cb ys") (simp_all add: Cons)
qed

lemma recur_leaf [simp]:
  "recur ctx (Identifier r t) = Inr []"
  "recur ctx (LiteralExpression r k t) = Inr []"
  "recur ctx (Token r tk) = Inr []"
  by (simp_all add: recur.simps forEachChild_def)

lemma recur_assignment:
  "recur ctx (BinaryExpression rg left (Token tr EqualsToken) right) =
     andThen (doCheck ctx (Some left) (Some right))
       (\<lambda>checked. andThen (recur ctx left)
          (\<lambda>a. andThen (recur ctx right) (\<lambda>b. Inr (checked @ a @ b))))"
  by (cases "recur ctx left"; cases "recur ctx right")
    (simp_all add: recur.simps [of ctx "BinaryExpression rg left (Token tr EqualsToken) right"]
      forEachChild_def cong: andThen_cong)

lemma recur_other_operator:
  "k \<noteq> EqualsToken \<Longrightarrow>
   recur ctx (BinaryExpression rg left (Token tr k) right) =
     andThen (recur ctx left) (\<lambda>a. andThen (recur ctx right) (\<lambda>b. Inr (a @ b)))"
  by (cases "recur ctx left"; cases "recur ctx right")
    (simp_all add: recur.simps [of ctx "BinaryExpression rg left (Token tr k) right"]
      forEachChild_def)

lemma recur_other_node:
  "recur ctx (OtherNode r k cs) = visitEach (recur ctx) cs"
  by (cases "visitEach (recur ctx) cs")
    (simp_all add: recur.simps [of ctx "OtherNode r k cs"] forEachChild_def)

lemma Rule_apply_Nil:
  "Rule_apply [] file fileText =
     walk \<lparr>sourceFile = file, sourceText = fileText,
           options = JObject [(''props'', JBool True)]\<rparr>"
  by (simp add: Rule_apply_def applyWithFunction_def)

lemma Rule_apply_Cons:
  "Rule_apply (opt # others) file fileText =
     walk \<lparr>sourceFile = file, sourceText = fileText, options = opt\<rparr>"
  by (simp add: Rule_apply_def applyWithFunction_def)

lemma walk_statement:
  "walk \<lparr>sourceFile = OtherNode r SourceFile
                 [OtherNode r' ExpressionStatement [e], Token r'' EndOfFileToken],
         sourceText = fileText, options = opt\<rparr> =
   recur \<lparr>sourceFile = OtherNode r SourceFile
                 [OtherNode r' ExpressionStatement [e], Token r'' EndOfFileToken],
          sourceText = fileText, options = opt\<rparr> e"
  (is "walk ?ctx = _")
  by (cases "recur ?ctx e") (simp_all add: walk_def forEachChild_def recur_other_node)

lemma doCheck_same_identifier:
  assumes "optionsProps (options ctx) = Inr p"
  shows "doCheck ctx (Some (Identifier lr x)) (Some (Identifier rr x)) =
    Inr [\<lparr>range = rr,
          message = ''variable '' @ CHR 0x27 # take (snd rr - fst rr) (drop (fst rr) (sourceText ctx))
                    @ CHR 0x27 # '' is assigned to itself.''\<rparr>]"
  using assms
  by (simp add: doCheck_Identifier isSameIdentifier_def report_def addFailureAtNode_def
      FAILURE_STRING_def getText_def)

lemma getText_assignment_right:
  "take (length x) (drop (length x + length op + 2) (src_assignment x op)) = x"
  by (simp add: src_assignment_def)

subsection \<open>Identifiers\<close>

text \<open>
  Claim C5. When the options are not \<open>null\<close>, a simple assignment whose two sides are
  identifiers with the same text yields exactly one finding. The finding is anchored at the
  right-hand identifier, and its message is \<open>variable '<text>' is assigned to itself.\<close>
  with the source text of the right-hand identifier between the quotes. So the file
  \<open>x = x;\<close> has exactly one finding, for every identifier \<open>x\<close>, both without rule
  arguments and with any first argument but \<open>null\<close>.
\<close>

theorem identifier_self_assignment_reported_once:
  assumes "options ctx \<noteq> JNull"
  shows "doCheck ctx (Some (Identifier lr x)) (Some (Identifier rr x)) =
      Inr [\<lparr>range = rr,
            message = ''variable '' @ CHR 0x27 # take (snd rr - fst rr) (drop (fst rr) (sourceText ctx))
                      @ CHR 0x27 # '' is assigned to itself.''\<rparr>]
    \<and> recur ctx (BinaryExpression rg (Identifier lr x) (Token tr EqualsToken) (Identifier rr x)) =
      Inr [\<lparr>range = rr,
            message = ''variable '' @ CHR 0x27 # take (snd rr - fst rr) (drop (fst rr) (sourceText ctx))
                      @ CHR 0x27 # '' is assigned to itself.''\<rparr>]
    \<and> Rule_apply [] (ast_assignment x ''='' EqualsToken) (src_assignment x ''='') =
      Inr [\<lparr>range = (length x + 3, 2 * length x + 3),
            message = ''variable '' @ CHR 0x27 # x @ CHR 0x27 # '' is assigned to itself.''\<rparr>]
    \<and> Rule_apply [options ctx] (ast_assignment x ''='' EqualsToken) (src_assignment x ''='') =
      Inr [\<lparr>range = (length x + 3, 2 * length x + 3),
            message = ''variable '' @ CHR 0x27 # x @ CHR 0x27 # '' is assigned to itself.''\<rparr>]"
proof -
  obtain p where p: "optionsProps (options ctx) = Inr p"
    using assms optionsProps_not_null by blast
  have whole: "optionsProps opt = Inr q \<Longrightarrow>
    walk \<lparr>sourceFile = ast_assignment x ''='' EqualsToken,
          sourceText = src_assignment x ''='', options = opt\<rparr> =
      Inr [\<lparr>range = (length x + 3, 2 * length x + 3),
            message = ''variable '' @ CHR 0x27 # x @ CHR 0x27 # '' is assigned to itself.''\<rparr>]"
    for opt q
    using getText_assignment_right [of x "''=''"]
    by (simp add: ast_assignment_def walk_statement recur_assignment doCheck_same_identifier)
  show ?thesis
    using p whole [of "JObject [(''props'', JBool True)]" True] whole [OF p]
    by (simp add: doCheck_same_identifier recur_assignment Rule_apply_Nil Rule_apply_Cons)
qed

theorem identifier_self_assignment_reported_once_witness:
  "JObject [(''props'', JBool False)] \<noteq> JNull
   \<and> recur \<lparr>sourceFile = ast_assignment ''foo'' ''='' EqualsToken,
             sourceText = ''foo = foo;'', options = JObject [(''props'', JBool False)]\<rparr>
        (BinaryExpression (0, 9) (Identifier (0, 3) ''foo'') (Token (4, 5) EqualsToken)
           (Identifier (6, 9) ''foo'')) =
      Inr [\<lparr>range = (6, 9), message = ''variable 'foo' is assigned to itself.''\<rparr>]"
  using identifier_self_assignment_reported_once
    [of "\<lparr>sourceFile = ast_assignment ''foo'' ''='' EqualsToken,
          sourceText = ''foo = foo;'', options = JObject [(''props'', JBool False)]\<rparr>"
      "(0, 3)" "''foo''" "(6, 9)" "(0, 9)" "(4, 5)"]
  by simp

subsection \<open>Compound assignments\<close>

lemma walk_class_member:
  "walk \<lparr>sourceFile = OtherNode r SourceFile
                 [OtherNode r' ClassDeclaration [Identifier nr name, member],
                  Token r'' EndOfFileToken],
         sourceText = fileText, options = opt\<rparr> =
   recur \<lparr>sourceFile = OtherNode r SourceFile
                 [OtherNode r' ClassDeclaration [Identifier nr name, member],
                  Token r'' EndOfFileToken],
          sourceText = fileText, options = opt\<rparr> member"
  (is "walk ?ctx = _")
  by (cases "recur ?ctx member") (simp_all add: walk_def forEachChild_def recur_other_node)

lemma Rule_apply_walk:
  "Rule_apply ruleArguments file fileText =
     walk \<lparr>sourceFile = file, sourceText = fileText,
           options = (if ruleArguments = [] then JObject [(''props'', JBool True)]
                      else ruleArguments ! 0)\<rparr>"
  by (simp add: Rule_apply_def applyWithFunction_def)

text \<open>
  Claim C7. Only the operator \<open>=\<close> triggers the check. At a binary expression with any other
  operator token the walker calls no check and only walks into the children; so
  \<open>x op x\<close> has no finding for any identifier \<open>x\<close> and any other operator \<open>op\<close>,
  \<open>+=\<close> among them, whatever the rule arguments are.
\<close>

theorem compound_assignment_never_checked:
  assumes "k \<noteq> EqualsToken"
  shows "recur ctx (BinaryExpression rg left (Token tr k) right) =
      visitEach (recur ctx) [left, Token tr k, right]
    \<and> recur ctx (BinaryExpression rg (Identifier lr x) (Token tr k) (Identifier rr x)) = Inr []
    \<and> Rule_apply ruleArguments (ast_assignment x op k) (src_assignment x op) = Inr []"
proof -
  have "recur ctx (BinaryExpression rg left (Token tr k) right) =
      visitEach (recur ctx) [left, Token tr k, right]"
    using assms by (cases "recur ctx left"; cases "recur ctx right") (simp_all add: recur_other_operator)
  then show ?thesis
    using assms
    by (simp add: recur_other_operator Rule_apply_walk ast_assignment_def walk_statement)
qed

theorem compound_assignment_never_checked_witness:
  "PlusEqualsToken \<noteq> EqualsToken
   \<and> src_assignment ''x'' ''+='' = ''x += x;''
   \<and> Rule_apply [] (ast_assignment ''x'' ''+='' PlusEqualsToken) ''x += x;'' = Inr []"
  using compound_assignment_never_checked
    [where k = PlusEqualsToken and ruleArguments = "[]" and x = "''x''" and op = "''+=''"]
  by (simp add: src_assignment_def)

subsection \<open>Field initialisers\<close>

lemma recur_this_property [simp]:
  "recur ctx (PropertyAccessExpression ir (Token tr k) (Identifier pr name)) = Inr []"
  "recur ctx (PropertyAccessExpression ir (Identifier br base) (Identifier pr name)) = Inr []"
  by (simp_all add: forEachChild_def
      recur.simps [of ctx "PropertyAccessExpression ir (Token tr k) (Identifier pr name)"]
      recur.simps [of ctx "PropertyAccessExpression ir (Identifier br base) (Identifier pr name)"])

lemma recur_field:
  assumes "recur ctx name = Inr []" and "recur ctx init = Inr []"
  shows "recur ctx (PropertyDeclaration r ms name anns (Some init)) =
     andThen (visitEach (recur ctx) (ms @ anns))
       (\<lambda>below. Inr ((if isPropertySelfAssigned (PropertyDeclaration r ms name anns (Some init))
                       then [report ctx init] else []) @ below))"
proof -
  have "visitEach (recur ctx) (ms @ name # anns @ [init]) = visitEach (recur ctx) (ms @ anns)"
    using assms
    by (cases "visitEach (recur ctx) ms"; cases "visitEach (recur ctx) anns")
      (simp_all add: visitEach_append [of _ ms] visitEach_append [of _ anns])
  then show ?thesis
    by (cases "visitEach (recur ctx) (ms @ anns)")
      (simp_all add: forEachChild_def
        recur.simps [of ctx "PropertyDeclaration r ms name anns (Some init)"])
qed

lemma field_finding:
  "report ctx (PropertyAccessExpression ir e n) =
     \<lparr>range = ir,
      message = ''variable '' @ CHR 0x27 # take (snd ir - fst ir) (drop (fst ir) (sourceText ctx))
                       @ CHR 0x27 # '' is assigned to itself.''\<rparr>"
  by (simp add: report_def addFailureAtNode_def FAILURE_STRING_def getText_def)

lemma recur_field_self:
  "recur ctx (PropertyDeclaration r ms (Identifier nr foo) anns
       (Some (PropertyAccessExpression ir (Token tr ThisKeyword) (Identifier pr foo)))) =
     andThen (visitEach (recur ctx) (ms @ anns))
       (\<lambda>below. Inr (\<lparr>range = ir,
                        message = ''variable '' @ CHR 0x27 # take (snd ir - fst ir) (drop (fst ir) (sourceText ctx))
                       @ CHR 0x27 # '' is assigned to itself.''\<rparr> # below))"
  by (simp add: recur_field field_finding)



lemma field_self_findings:
  "walk \<lparr>sourceFile = ast_field_self, sourceText = src_field_self, options = opt\<rparr> =
     Inr [\<lparr>range = (16, 24), message = ''variable 'this.foo' is assigned to itself.''\<rparr>]"
  by (simp add: ast_field_self_def src_field_self_def walk_class_member recur_field_self)








subsection \<open>Object patterns\<close>

lemma startRight_none:
  "(\<forall>j<length ps. \<not> isSpreadAssignment (ps ! j)) \<Longrightarrow> startRight ps = 0"
  by (simp add: startRight_def lastSpread_none)

lemma startRight_last:
  "j < length ps \<Longrightarrow> isSpreadAssignment (ps ! j) \<Longrightarrow>
   (\<forall>k. j < k \<and> k < length ps \<longrightarrow> \<not> isSpreadAssignment (ps ! k)) \<Longrightarrow> startRight ps = j + 1"
  unfolding startRight_def by (rule lastSpread_last)

lemma doCheck_objects_eq:
  assumes "optionsProps (options ctx) = Inr p"
  shows "doCheck ctx (Some (ObjectLiteralExpression r1 lps)) (Some (ObjectLiteralExpression r2 rps)) =
    Inr (concat (map (\<lambda>lp. concat (map (\<lambda>rp. projr (doCheck ctx (Some lp) (Some rp)))
                                      (drop (startRight rps) rps))) lps))"
  using assms by (simp add: doCheck_objects checkProperties_eq [OF assms])

lemma walk_parenthesized:
  "walk \<lparr>sourceFile = OtherNode r SourceFile
                 [OtherNode r' ExpressionStatement [OtherNode r'' ParenthesizedExpression [e]],
                  Token r''' EndOfFileToken],
         sourceText = fileText, options = opt\<rparr> =
   recur \<lparr>sourceFile = OtherNode r SourceFile
                 [OtherNode r' ExpressionStatement [OtherNode r'' ParenthesizedExpression [e]],
                  Token r''' EndOfFileToken],
          sourceText = fileText, options = opt\<rparr> e"
  (is "walk ?ctx = _")
  by (cases "recur ?ctx e") (simp_all add: walk_statement recur_other_node)

lemmas evaluation =
  recur.simps forEachChild_def doCheck.simps(3) checkElements.simps checkProperty.simps
  startRight_def isSameIdentifier_def report_def addFailureAtNode_def FAILURE_STRING_def
  getText_def

lemma obj_spread_mid_findings:
  assumes "optionsProps opt = Inr p"
  shows "walk \<lparr>sourceFile = ast_obj_spread_mid, sourceText = src_obj_spread_mid, options = opt\<rparr> =
    Inr [\<lparr>range = (20, 21), message = ''variable 'b' is assigned to itself.''\<rparr>]"
  using assms
  by (simp add: walk_def evaluation ast_obj_spread_mid_def src_obj_spread_mid_def)

lemma obj_spread_first_findings:
  assumes "optionsProps opt = Inr p"
  shows "walk \<lparr>sourceFile = ast_obj_spread_first, sourceText = src_obj_spread_first, options = opt\<rparr> =
    Inr [\<lparr>range = (17, 18), message = ''variable 'a' is assigned to itself.''\<rparr>,
         \<lparr>range = (20, 21), message = ''variable 'b' is assigned to itself.''\<rparr>]"
  using assms
  by (simp add: walk_def evaluation ast_obj_spread_first_def src_obj_spread_first_def)

lemma obj_plain_findings:
  assumes "optionsProps opt = Inr p"
  shows "walk \<lparr>sourceFile = ast_obj_plain, sourceText = src_obj_plain, options = opt\<rparr> =
    Inr [\<lparr>range = (11, 12), message = ''variable 'a' is assigned to itself.''\<rparr>,
         \<lparr>range = (14, 15), message = ''variable 'b' is assigned to itself.''\<rparr>]"
  using assms
  by (simp add: walk_def evaluation ast_obj_plain_def src_obj_plain_def)

text \<open>
  Claim C1. Between two object literals, \<open>startRight\<close> is \<open>0\<close> when the right one has no
  spread property, and one more than the index of its last spread property otherwise. When
  the options are not \<open>null\<close>, the findings of the pair are those of every left property
  against every right property from \<open>startRight\<close> on, all pairs, in the order of the left
  properties. So \<open>({a, b} = {a, ...x, b});\<close> has exactly one finding, for \<open>b\<close>, and
  \<open>({a, b} = {...x, a, b});\<close> has two, without rule arguments as with any first argument
  but \<open>null\<close>.
\<close>

theorem object_pattern_all_pairs_after_last_spread:
  assumes "options ctx \<noteq> JNull"
  shows "((\<forall>j<length rps. \<not> isSpreadAssignment (rps ! j)) \<longrightarrow> startRight rps = 0)
    \<and> (\<forall>j. j < length rps \<and> isSpreadAssignment (rps ! j)
             \<and> (\<forall>k. j < k \<and> k < length rps \<longrightarrow> \<not> isSpreadAssignment (rps ! k))
           \<longrightarrow> startRight rps = j + 1)
    \<and> doCheck ctx (Some (ObjectLiteralExpression r1 lps)) (Some (ObjectLiteralExpression r2 rps)) =
        Inr (concat (map (\<lambda>lp. concat (map (\<lambda>rp. projr (doCheck ctx (Some lp) (Some rp)))
                                          (drop (startRight rps) rps))) lps))
    \<and> Rule_apply [] ast_obj_spread_mid src_obj_spread_mid =
        Inr [\<lparr>range = (20, 21), message = ''variable 'b' is assigned to itself.''\<rparr>]
    \<and> Rule_apply [options ctx] ast_obj_spread_mid src_obj_spread_mid =
        Inr [\<lparr>range = (20, 21), message = ''variable 'b' is assigned to itself.''\<rparr>]
    \<and> Rule_apply [] ast_obj_spread_first src_obj_spread_first =
        Inr [\<lparr>range = (17, 18), message = ''variable 'a' is assigned to itself.''\<rparr>,
             \<lparr>range = (20, 21), message = ''variable 'b' is assigned to itself.''\<rparr>]
    \<and> Rule_apply [options ctx] ast_obj_spread_first src_obj_spread_first =
        Inr [\<lparr>range = (17, 18), message = ''variable 'a' is assigned to itself.''\<rparr>,
             \<lparr>range = (20, 21), message = ''variable 'b' is assigned to itself.''\<rparr>]"
proof -
  obtain p where p: "optionsProps (options ctx) = Inr p"
    using assms optionsProps_not_null by blast
  have default: "optionsProps (JObject [(''props'', JBool True)]) = Inr True"
    by simp
  show ?thesis
    using startRight_none [of rps] startRight_last [of _ rps]
    by (simp add: doCheck_objects_eq [OF p] Rule_apply_Nil Rule_apply_Cons
        obj_spread_mid_findings [OF p] obj_spread_mid_findings [OF default]
        obj_spread_first_findings [OF p] obj_spread_first_findings [OF default])
qed

theorem object_pattern_all_pairs_after_last_spread_witness:
  "JObject [] \<noteq> JNull
   \<and> startRight [ShorthandPropertyAssignment (11, 12) (Identifier (11, 12) ''a'') None,
                  SpreadAssignment (14, 18) (Identifier (17, 18) ''x''),
                  ShorthandPropertyAssignment (20, 21) (Identifier (20, 21) ''b'') None] = 2
   \<and> doCheck \<lparr>sourceFile = ast_obj_spread_mid, sourceText = src_obj_spread_mid, options = JObject []\<rparr>
       (Some (ObjectLiteralExpression (1, 7)
          [ShorthandPropertyAssignment (2, 3) (Identifier (2, 3) ''a'') None,
           ShorthandPropertyAssignment (5, 6) (Identifier (5, 6) ''b'') None]))
       (Some (ObjectLiteralExpression (10, 22)
          [ShorthandPropertyAssignment (11, 12) (Identifier (11, 12) ''a'') None,
           SpreadAssignment (14, 18) (Identifier (17, 18) ''x''),
           ShorthandPropertyAssignment (20, 21) (Identifier (20, 21) ''b'') None])) =
     Inr [\<lparr>range = (20, 21), message = ''variable 'b' is assigned to itself.''\<rparr>]"
proof -
  let ?ctx = "\<lparr>sourceFile = ast_obj_spread_mid, sourceText = src_obj_spread_mid,
                options = JObject []\<rparr>"
  let ?rps = "[ShorthandPropertyAssignment (11, 12) (Identifier (11, 12) ''a'') None,
               SpreadAssignment (14, 18) (Identifier (17, 18) ''x''),
               ShorthandPropertyAssignment (20, 21) (Identifier (20, 21) ''b'') None]"
  note claim = object_pattern_all_pairs_after_last_spread
    [of ?ctx ?rps "(1, 7)"
      "[ShorthandPropertyAssignment (2, 3) (Identifier (2, 3) ''a'') None,
        ShorthandPropertyAssignment (5, 6) (Identifier (5, 6) ''b'') None]" "(10, 22)"]
  have start: "startRight ?rps = 2"
    using claim [THEN conjunct2, THEN conjunct1, rule_format, of 1] by (simp add: nth_Cons')
  have pairs:
    "doCheck ?ctx (Some (ShorthandPropertyAssignment (2, 3) (Identifier (2, 3) ''a'') None))
       (Some (ShorthandPropertyAssignment (20, 21) (Identifier (20, 21) ''b'') None)) = Inr []"
    "doCheck ?ctx (Some (ShorthandPropertyAssignment (5, 6) (Identifier (5, 6) ''b'') None))
       (Some (ShorthandPropertyAssignment (20, 21) (Identifier (20, 21) ''b'') None)) =
     Inr [\<lparr>range = (20, 21), message = ''variable 'b' is assigned to itself.''\<rparr>]"
    by (simp_all add: doCheck_shorthands doCheck_Identifier isSameIdentifier_def report_def
        addFailureAtNode_def FAILURE_STRING_def getText_def src_obj_spread_mid_def)
  show ?thesis
    using claim [THEN conjunct2, THEN conjunct2, THEN conjunct1] start pairs by simp
qed

subsection \<open>Array patterns\<close>

lemma doCheck_arrays_eq:
  assumes "optionsProps (options ctx) = Inr p"
  shows "doCheck ctx (Some (ArrayLiteralExpression r1 ls)) (Some (ArrayLiteralExpression r2 rs)) =
    Inr (concat (map (\<lambda>(l, r). projr (doCheck ctx (Some l) (Some r)))
      (take (Suc (length (takeWhile (\<lambda>r. \<not> isSpreadElement r) rs))) (zip ls rs))))"
  using assms by (simp add: doCheck_arrays checkElements_eq [OF assms])

lemma visitEach_returns:
  "(\<And>c. c \<in> set ns \<Longrightarrow> \<exists>fs. cb c = Inr fs) \<Longrightarrow> \<exists>fs. visitEach cb ns = Inr fs"
proof (induction ns)
  case Nil
  show ?case by simp
next
  case (Cons n ns)
  obtain a b where "cb n = Inr a" "visitEach cb ns = Inr b"
    using Cons.IH Cons.prems by (metis list.set_intros)
  then show ?case by simp
qed

lemma recur_returns:
  assumes "optionsProps (options ctx) = Inr p"
  shows "\<exists>fs. recur ctx n = Inr fs"
  using assms
proof (induction ctx n rule: recur.induct)
  case (1 ctx n)
  note p = \<open>optionsProps (options ctx) = Inr p\<close>
  let ?check = "case n of
      BinaryExpression x left operatorToken right \<Rightarrow>
        if isKind EqualsToken operatorToken then doCheck ctx (Some left) (Some right) else Inr []
    | _ \<Rightarrow> Inr []"
  have "\<exists>checked. ?check = Inr checked"
    by (cases n) (simp_all add: doCheck_returns(1) [OF p])
  then obtain checked where checked: "?check = Inr checked" ..
  have "\<exists>fs. recur ctx c = Inr fs" if "c \<in> set (children n)" for c
    using "1.IH" [OF checked refl that p] .
  then obtain below where "forEachChild n (recur ctx) = Inr below"
    unfolding forEachChild_def using visitEach_returns [of "children n" "recur ctx"] by blast
  then show ?case
    using checked by (subst recur.simps) (simp add: Let_def)
qed

lemma arr_plain_findings:
  assumes "optionsProps opt = Inr p"
  shows "walk \<lparr>sourceFile = ast_arr_plain, sourceText = src_arr_plain, options = opt\<rparr> =
    Inr [\<lparr>range = (10, 11), message = ''variable 'a' is assigned to itself.''\<rparr>,
         \<lparr>range = (13, 14), message = ''variable 'b' is assigned to itself.''\<rparr>]"
  using assms
  by (simp add: walk_def evaluation ast_arr_plain_def src_arr_plain_def)

lemma arr_spread_findings:
  assumes "optionsProps opt = Inr p"
  shows "walk \<lparr>sourceFile = ast_arr_spread, sourceText = src_arr_spread, options = opt\<rparr> =
    Inr [\<lparr>range = (10, 11), message = ''variable 'a' is assigned to itself.''\<rparr>]"
  using assms
  by (simp add: walk_def evaluation ast_arr_spread_def src_arr_spread_def)

lemma arr_spread_nested_findings:
  assumes "optionsProps opt = Inr p"
  shows "walk \<lparr>sourceFile = ast_arr_spread_nested, sourceText = src_arr_spread_nested,
               options = opt\<rparr> =
    Inr [\<lparr>range = (18, 19), message = ''variable 'x' is assigned to itself.''\<rparr>]"
  using assms
  by (simp add: walk_def evaluation ast_arr_spread_nested_def src_arr_spread_nested_def)

text \<open>
  Claim C2. Between two array literals, when the options are not \<open>null\<close>, the findings of
  the pair are those of the elements at equal indices (the pairs of \<open>zip\<close>, which end with
  the shorter list), up to and including the first index at which the right element is a
  spread. The walker goes on after the check: the findings at an assignment are those of the
  check followed by those of walking into both sides. So \<open>[a, b] = [a, b];\<close> has two
  findings, \<open>[a, b] = [a, ...rest];\<close> has exactly one, for \<open>a\<close>, and
  \<open>[a, b] = [...(x = x), b];\<close> has none for \<open>b\<close> but the one for the assignment inside the
  spread.
\<close>

theorem array_pattern_compares_positions_until_spread:
  assumes "options ctx \<noteq> JNull"
  shows "doCheck ctx (Some (ArrayLiteralExpression r1 ls)) (Some (ArrayLiteralExpression r2 rs)) =
        Inr (concat (map (\<lambda>(l, r). projr (doCheck ctx (Some l) (Some r)))
          (take (Suc (length (takeWhile (\<lambda>r. \<not> isSpreadElement r) rs))) (zip ls rs))))
    \<and> recur ctx (BinaryExpression rg left (Token tr EqualsToken) right) =
        Inr (projr (doCheck ctx (Some left) (Some right))
             @ projr (recur ctx left) @ projr (recur ctx right))
    \<and> Rule_apply [] ast_arr_plain src_arr_plain =
        Inr [\<lparr>range = (10, 11), message = ''variable 'a' is assigned to itself.''\<rparr>,
             \<lparr>range = (13, 14), message = ''variable 'b' is assigned to itself.''\<rparr>]
    \<and> Rule_apply [options ctx] ast_arr_plain src_arr_plain =
        Inr [\<lparr>range = (10, 11), message = ''variable 'a' is assigned to itself.''\<rparr>,
             \<lparr>range = (13, 14), message = ''variable 'b' is assigned to itself.''\<rparr>]
    \<and> Rule_apply [] ast_arr_spread src_arr_spread =
        Inr [\<lparr>range = (10, 11), message = ''variable 'a' is assigned to itself.''\<rparr>]
    \<and> Rule_apply [options ctx] ast_arr_spread src_arr_spread =
        Inr [\<lparr>range = (10, 11), message = ''variable 'a' is assigned to itself.''\<rparr>]
    \<and> Rule_apply [] ast_arr_spread_nested src_arr_spread_nested =
        Inr [\<lparr>range = (18, 19), message = ''variable 'x' is assigned to itself.''\<rparr>]
    \<and> Rule_apply [options ctx] ast_arr_spread_nested src_arr_spread_nested =
        Inr [\<lparr>range = (18, 19), message = ''variable 'x' is assigned to itself.''\<rparr>]"
proof -
  obtain p where p: "optionsProps (options ctx) = Inr p"
    using assms optionsProps_not_null by blast
  have default: "optionsProps (JObject [(''props'', JBool True)]) = Inr True"
    by simp
  obtain checked a b where "doCheck ctx (Some left) (Some right) = Inr checked"
    "recur ctx left = Inr a" "recur ctx right = Inr b"
    using doCheck_returns(1) [OF p] recur_returns [OF p] by metis
  then have "recur ctx (BinaryExpression rg left (Token tr EqualsToken) right) =
        Inr (projr (doCheck ctx (Some left) (Some right))
             @ projr (recur ctx left) @ projr (recur ctx right))"
    by (simp add: recur_assignment)
  then show ?thesis
    by (simp add: doCheck_arrays_eq [OF p] Rule_apply_Nil Rule_apply_Cons
        arr_plain_findings [OF p] arr_plain_findings [OF default]
        arr_spread_findings [OF p] arr_spread_findings [OF default]
        arr_spread_nested_findings [OF p] arr_spread_nested_findings [OF default])
qed

theorem array_pattern_compares_positions_until_spread_witness:
  "JObject [(''props'', JBool False)] \<noteq> JNull
   \<and> doCheck \<lparr>sourceFile = ast_arr_spread, sourceText = src_arr_spread,
               options = JObject [(''props'', JBool False)]\<rparr>
       (Some (ArrayLiteralExpression (0, 6) [Identifier (1, 2) ''a'', Identifier (4, 5) ''b'']))
       (Some (ArrayLiteralExpression (9, 21)
          [Identifier (10, 11) ''a'', SpreadElement (13, 20) (Identifier (16, 20) ''rest'')])) =
     Inr [\<lparr>range = (10, 11), message = ''variable 'a' is assigned to itself.''\<rparr>]"
proof -
  let ?ctx = "\<lparr>sourceFile = ast_arr_spread, sourceText = src_arr_spread,
                options = JObject [(''props'', JBool False)]\<rparr>"
  have pairs:
    "doCheck ?ctx (Some (Identifier (1, 2) ''a'')) (Some (Identifier (10, 11) ''a'')) =
       Inr [\<lparr>range = (10, 11), message = ''variable 'a' is assigned to itself.''\<rparr>]"
    "doCheck ?ctx (Some (Identifier (4, 5) ''b''))
       (Some (SpreadElement (13, 20) (Identifier (16, 20) ''rest''))) = Inr []"
    by (simp_all add: doCheck_Identifier isSameIdentifier_def report_def
        addFailureAtNode_def FAILURE_STRING_def getText_def src_arr_spread_def)
  show ?thesis
    using array_pattern_compares_positions_until_spread
      [of ?ctx "(0, 6)" "[Identifier (1, 2) ''a'', Identifier (4, 5) ''b'']" "(9, 21)"
        "[Identifier (10, 11) ''a'', SpreadElement (13, 20) (Identifier (16, 20) ''rest'')]",
        THEN conjunct1] pairs
    by simp
qed

subsection \<open>Element accesses\<close>

lemma isIdentifier_iff: "isIdentifier n \<longleftrightarrow> (\<exists>r t. n = Identifier r t)"
  by (cases n) simp_all

lemma isLiteralExpression_iff:
  "isLiteralExpression n \<longleftrightarrow> (\<exists>r k t. n = LiteralExpression r k t)"
  by (cases n) simp_all

lemma same_identifiers_iff:
  "isIdentifier a \<and> isIdentifier b \<and> text_of a = text_of b \<longleftrightarrow>
     (\<exists>ra rb t. a = Identifier ra t \<and> b = Identifier rb t)"
  by (auto simp: isIdentifier_iff)

lemma same_literals_iff:
  "isLiteralExpression a \<and> isLiteralExpression b \<and> text_of a = text_of b \<longleftrightarrow>
     (\<exists>ra rb ka kb t. a = LiteralExpression ra ka t \<and> b = LiteralExpression rb kb t)"
  by (auto simp: isLiteralExpression_iff)

lemma isSameElementAccess_guards:
  "isSameElementAccess (ElementAccessExpression r1 b1 (Some k1))
                       (ElementAccessExpression r2 b2 (Some k2)) \<longleftrightarrow>
     (isIdentifier b1 \<and> isIdentifier b2 \<and> text_of b1 = text_of b2)
     \<and> ((isIdentifier k1 \<and> isIdentifier k2 \<and> text_of k1 = text_of k2)
        \<or> (isLiteralExpression k1 \<and> isLiteralExpression k2 \<and> text_of k1 = text_of k2))"
  by (auto simp: isSameIdentifier_def)

lemma isSameElementAccess_iff:
  "isSameElementAccess (ElementAccessExpression r1 b1 (Some k1))
                       (ElementAccessExpression r2 b2 (Some k2)) \<longleftrightarrow>
     (\<exists>ra rb t. b1 = Identifier ra t \<and> b2 = Identifier rb t)
     \<and> ((\<exists>ra rb t. k1 = Identifier ra t \<and> k2 = Identifier rb t)
        \<or> (\<exists>ra rb ka kb t. k1 = LiteralExpression ra ka t \<and> k2 = LiteralExpression rb kb t))"
  unfolding isSameElementAccess_guards same_identifiers_iff same_literals_iff ..

lemma elem_string_findings:
  assumes "optionsProps opt = Inr True"
  shows \<open>walk \<lparr>sourceFile = ast_elem_string, sourceText = src_elem_string, options = opt\<rparr> =
    Inr [\<lparr>range = (9, 15), message = ''variable 'a["x"]' is assigned to itself.''\<rparr>]\<close>
  using assms
  by (simp add: walk_def evaluation ast_elem_string_def src_elem_string_def)

lemma elem_idents_findings:
  assumes "optionsProps opt = Inr True"
  shows \<open>walk \<lparr>sourceFile = ast_elem_idents, sourceText = src_elem_idents, options = opt\<rparr> =
    Inr []\<close>
  using assms
  by (simp add: walk_def evaluation ast_elem_idents_def src_elem_idents_def)

lemma elem_calls_findings:
  assumes "optionsProps opt = Inr True"
  shows \<open>walk \<lparr>sourceFile = ast_elem_calls, sourceText = src_elem_calls, options = opt\<rparr> =
    Inr []\<close>
  using assms
  by (simp add: walk_def evaluation ast_elem_calls_def src_elem_calls_def)

lemma doCheck_element_accesses:
  assumes "optionsProps (options ctx) = Inr True"
  shows "doCheck ctx (Some (ElementAccessExpression r1 b1 (Some k1)))
                     (Some (ElementAccessExpression r2 b2 (Some k2))) =
    Inr (if (\<exists>ra rb t. b1 = Identifier ra t \<and> b2 = Identifier rb t)
            \<and> ((\<exists>ra rb t. k1 = Identifier ra t \<and> k2 = Identifier rb t)
               \<or> (\<exists>ra rb ka kb t. k1 = LiteralExpression ra ka t
                                  \<and> k2 = LiteralExpression rb kb t))
         then [\<lparr>range = r2,
                 message = ''variable '' @ CHR 0x27 # take (snd r2 - fst r2) (drop (fst r2) (sourceText ctx))
                           @ CHR 0x27 # '' is assigned to itself.''\<rparr>]
         else [])"
proof -
  let ?left = "ElementAccessExpression r1 b1 (Some k1)"
  let ?right = "ElementAccessExpression r2 b2 (Some k2)"
  have "doCheck ctx (Some ?left) (Some ?right) =
      Inr (if isSameElementAccess ?left ?right then [report ctx ?right] else [])"
    using assms by (simp add: doCheck_ElementAccessExpression del: isSameElementAccess.simps)
  then show ?thesis
    unfolding isSameElementAccess_iff
    by (simp only: report_def addFailureAtNode_def FAILURE_STRING_def getText_def
        nodeRange.simps append_Cons append_Nil)
qed

lemma default_props: "optionsProps (JObject [(''props'', JBool True)]) = Inr True"
  by simp

text \<open>
  Claim C4. With the property checks on, an assignment between two element accesses with keys
  yields a finding, anchored at the right-hand access, exactly when the two bases are
  identifiers with the same text and the two keys are either identifiers with the same text
  or literals with the same text. So \<open>a["x"] = a["x"];\<close> has one finding, and
  \<open>a[x] = a[y];\<close> and \<open>a[f()] = a[f()];\<close> have none.
\<close>

theorem element_access_finding_iff_same_base_and_key:
  assumes "optionsProps (options ctx) = Inr True"
  shows \<open>doCheck ctx (Some (ElementAccessExpression r1 b1 (Some k1)))
                     (Some (ElementAccessExpression r2 b2 (Some k2))) =
        Inr (if (\<exists>ra rb t. b1 = Identifier ra t \<and> b2 = Identifier rb t)
                \<and> ((\<exists>ra rb t. k1 = Identifier ra t \<and> k2 = Identifier rb t)
                   \<or> (\<exists>ra rb ka kb t. k1 = LiteralExpression ra ka t
                                      \<and> k2 = LiteralExpression rb kb t))
             then [\<lparr>range = r2,
                     message = ''variable '' @ CHR 0x27 # take (snd r2 - fst r2) (drop (fst r2) (sourceText ctx))
                           @ CHR 0x27 # '' is assigned to itself.''\<rparr>]
             else [])
    \<and> Rule_apply [] ast_elem_string src_elem_string =
        Inr [\<lparr>range = (9, 15), message = ''variable 'a["x"]' is assigned to itself.''\<rparr>]
    \<and> Rule_apply [options ctx] ast_elem_string src_elem_string =
        Inr [\<lparr>range = (9, 15), message = ''variable 'a["x"]' is assigned to itself.''\<rparr>]
    \<and> Rule_apply [] ast_elem_idents src_elem_idents =
        Inr []
    \<and> Rule_apply [options ctx] ast_elem_idents src_elem_idents =
        Inr []
    \<and> Rule_apply [] ast_elem_calls src_elem_calls =
        Inr []
    \<and> Rule_apply [options ctx] ast_elem_calls src_elem_calls =
        Inr []\<close>
  using assms
  by (simp add: doCheck_element_accesses Rule_apply_Nil Rule_apply_Cons default_props
      elem_string_findings elem_idents_findings elem_calls_findings
)

theorem element_access_finding_iff_same_base_and_key_witness:
  \<open>optionsProps (JObject [(''props'', JBool True)]) = Inr True
   \<and> doCheck \<lparr>sourceFile = ast_elem_string, sourceText = src_elem_string,
               options = JObject [(''props'', JBool True)]\<rparr>
       (Some (ElementAccessExpression (0, 6) (Identifier (0, 1) ''a'')
          (Some (LiteralExpression (2, 5) StringLiteral ''x''))))
       (Some (ElementAccessExpression (9, 15) (Identifier (9, 10) ''a'')
          (Some (LiteralExpression (11, 14) StringLiteral ''x'')))) =
     Inr [\<lparr>range = (9, 15), message = ''variable 'a["x"]' is assigned to itself.''\<rparr>]\<close>
  using element_access_finding_iff_same_base_and_key
    [of "\<lparr>sourceFile = ast_elem_string, sourceText = src_elem_string,
           options = JObject [(''props'', JBool True)]\<rparr>"
      "(0, 6)" "Identifier (0, 1) ''a''" "LiteralExpression (2, 5) StringLiteral ''x''"
      "(9, 15)" "Identifier (9, 10) ''a''" "LiteralExpression (11, 14) StringLiteral ''x''"]
  by (simp add: src_elem_string_def)

lemma elem_quotes_findings_any:
  assumes "optionsProps opt = Inr p"
  shows \<open>walk \<lparr>sourceFile = ast_elem_quotes, sourceText = src_elem_quotes, options = opt\<rparr> =
    Inr (if p then [\<lparr>range = (9, 15), message = ''variable 'a["x"]' is assigned to itself.''\<rparr>] else [])\<close>
  using assms
  by (simp add: walk_def evaluation ast_elem_quotes_def src_elem_quotes_def)

lemma elem_number_string_findings_any:
  assumes "optionsProps opt = Inr p"
  shows \<open>walk \<lparr>sourceFile = ast_elem_number_string, sourceText = src_elem_number_string, options = opt\<rparr> =
    Inr (if p then [\<lparr>range = (7, 13), message = ''variable 'a["1"]' is assigned to itself.''\<rparr>] else [])\<close>
  using assms
  by (simp add: walk_def evaluation ast_elem_number_string_def src_elem_number_string_def)

lemma elem_other_text_findings_any:
  assumes "optionsProps opt = Inr p"
  shows \<open>walk \<lparr>sourceFile = ast_elem_other_text, sourceText = src_elem_other_text, options = opt\<rparr> =
    Inr []\<close>
  using assms
  by (simp add: walk_def evaluation ast_elem_other_text_def src_elem_other_text_def)

lemma isSameElementAccess_literal_keys:
  "isSameElementAccess
     (ElementAccessExpression r1 (Identifier br1 a1) (Some (LiteralExpression kr1 kind1 t1)))
     (ElementAccessExpression r2 (Identifier br2 a2) (Some (LiteralExpression kr2 kind2 t2))) \<longleftrightarrow>
   a1 = a2 \<and> t1 = t2"
  by (simp add: isSameIdentifier_def)

lemma doCheck_literal_keys:
  assumes "optionsProps (options ctx) = Inr p"
  shows "doCheck ctx
      (Some (ElementAccessExpression r1 (Identifier br1 a1) (Some (LiteralExpression kr1 kind1 t1))))
      (Some (ElementAccessExpression r2 (Identifier br2 a2) (Some (LiteralExpression kr2 kind2 t2)))) =
    Inr (if p \<and> a1 = a2 \<and> t1 = t2
         then [\<lparr>range = r2,
                 message = ''variable '' @ CHR 0x27 # take (snd r2 - fst r2) (drop (fst r2) (sourceText ctx))
                     @ CHR 0x27 # '' is assigned to itself.''\<rparr>]
         else [])"
  using assms
  by (simp add: doCheck_ElementAccessExpression isSameIdentifier_def report_def
      addFailureAtNode_def FAILURE_STRING_def getText_def)

lemma props_off: "optionsProps (JObject [(''props'', JBool False)]) = Inr False"
  by simp

text \<open>
  Claim C10, as stated, fails when the option \<open>props\<close> is off: then \<open>a['x'] = a["x"];\<close> and
  \<open>a[1] = a["1"];\<close> have no finding.
\<close>

theorem element_access_literal_keys_checks_off_counterexample:
  "Rule_apply [JObject [(''props'', JBool False)]] ast_elem_quotes src_elem_quotes = Inr []
   \<and> Rule_apply [JObject [(''props'', JBool False)]] ast_elem_number_string
        src_elem_number_string = Inr []"
  by (simp add: Rule_apply_Cons elem_quotes_findings_any [OF props_off]
      elem_number_string_findings_any [OF props_off])

text \<open>
  Claim C10, amended. The literal keys of two element accesses are compared by the \<open>text\<close> of
  the literals, not by their source text and not by their kind: two accesses whose bases are
  identifiers and whose keys are literals are the same element access exactly when the bases
  have the same text and the keys have the same text. Their pair has a finding, anchored at
  the right-hand access, exactly when moreover the option \<open>props\<close> is on, as it is without
  rule arguments. So without rule arguments \<open>a['x'] = a["x"];\<close> and \<open>a[1] = a["1"];\<close> have
  one finding each and \<open>a["x"] = a["y"];\<close> has none.
\<close>

theorem element_access_keys_compared_by_literal_text:
  assumes "optionsProps (options ctx) = Inr p"
  shows \<open>(isSameElementAccess
          (ElementAccessExpression r1 (Identifier br1 a1) (Some (LiteralExpression kr1 kind1 t1)))
          (ElementAccessExpression r2 (Identifier br2 a2) (Some (LiteralExpression kr2 kind2 t2)))
        \<longleftrightarrow> a1 = a2 \<and> t1 = t2)
    \<and> doCheck ctx
          (Some (ElementAccessExpression r1 (Identifier br1 a1)
             (Some (LiteralExpression kr1 kind1 t1))))
          (Some (ElementAccessExpression r2 (Identifier br2 a2)
             (Some (LiteralExpression kr2 kind2 t2)))) =
        Inr (if p \<and> a1 = a2 \<and> t1 = t2
             then [\<lparr>range = r2,
                     message = ''variable '' @ CHR 0x27 # take (snd r2 - fst r2) (drop (fst r2) (sourceText ctx))
                     @ CHR 0x27 # '' is assigned to itself.''\<rparr>]
             else [])
    \<and> Rule_apply [] ast_elem_quotes src_elem_quotes =
        Inr [\<lparr>range = (9, 15), message = ''variable 'a["x"]' is assigned to itself.''\<rparr>]
    \<and> Rule_apply [options ctx] ast_elem_quotes src_elem_quotes =
        Inr (if p then [\<lparr>range = (9, 15), message = ''variable 'a["x"]' is assigned to itself.''\<rparr>] else [])
    \<and> Rule_apply [] ast_elem_number_string src_elem_number_string =
        Inr [\<lparr>range = (7, 13), message = ''variable 'a["1"]' is assigned to itself.''\<rparr>]
    \<and> Rule_apply [options ctx] ast_elem_number_string src_elem_number_string =
        Inr (if p then [\<lparr>range = (7, 13), message = ''variable 'a["1"]' is assigned to itself.''\<rparr>] else [])
    \<and> Rule_apply [] ast_elem_other_text src_elem_other_text = Inr []
    \<and> Rule_apply [options ctx] ast_elem_other_text src_elem_other_text = Inr []\<close>
  using doCheck_literal_keys [OF assms, of r1 br1 a1 kr1 kind1 t1 r2 br2 a2 kr2 kind2 t2]
  by (simp only: isSameElementAccess_literal_keys Rule_apply_Nil Rule_apply_Cons
      elem_quotes_findings_any [OF assms] elem_quotes_findings_any [OF default_props]
      elem_number_string_findings_any [OF assms]
      elem_number_string_findings_any [OF default_props]
      elem_other_text_findings_any [OF assms] elem_other_text_findings_any [OF default_props]
      if_True simp_thms)

theorem element_access_keys_compared_by_literal_text_witness:
  \<open>optionsProps (JObject [(''props'', JBool True)]) = Inr True
   \<and> take 1 (drop 2 src_elem_number_string) = ''1''
   \<and> take 3 (drop 9 src_elem_number_string) = ''"1"''
   \<and> doCheck \<lparr>sourceFile = ast_elem_number_string, sourceText = src_elem_number_string,
               options = JObject [(''props'', JBool True)]\<rparr>
       (Some (ElementAccessExpression (0, 4) (Identifier (0, 1) ''a'')
          (Some (LiteralExpression (2, 3) NumericLiteral ''1''))))
       (Some (ElementAccessExpression (7, 13) (Identifier (7, 8) ''a'')
          (Some (LiteralExpression (9, 12) StringLiteral ''1'')))) =
     Inr [\<lparr>range = (7, 13), message = ''variable 'a["1"]' is assigned to itself.''\<rparr>]
   \<and> doCheck \<lparr>sourceFile = ast_elem_number_string, sourceText = src_elem_number_string,
               options = JObject [(''props'', JBool True)]\<rparr>
       (Some (ElementAccessExpression (0, 4) (Identifier (0, 1) ''a'')
          (Some (LiteralExpression (2, 3) NumericLiteral ''1''))))
       (Some (ElementAccessExpression (7, 13) (Identifier (7, 8) ''a'')
          (Some (LiteralExpression (9, 12) StringLiteral ''2'')))) = Inr []\<close>
  using element_access_keys_compared_by_literal_text
    [of "\<lparr>sourceFile = ast_elem_number_string, sourceText = src_elem_number_string,
           options = JObject [(''props'', JBool True)]\<rparr>"
      True "(0, 4)" "(0, 1)" "''a''" "(2, 3)" NumericLiteral "''1''" "(7, 13)" "(7, 8)" "''a''"
      "(9, 12)" StringLiteral "''1''"]
    element_access_keys_compared_by_literal_text
    [of "\<lparr>sourceFile = ast_elem_number_string, sourceText = src_elem_number_string,
           options = JObject [(''props'', JBool True)]\<rparr>"
      True "(0, 4)" "(0, 1)" "''a''" "(2, 3)" NumericLiteral "''1''" "(7, 13)" "(7, 8)" "''a''"
      "(9, 12)" StringLiteral "''2''"]
  by (simp add: src_elem_number_string_def)

subsection \<open>Absent sides and mismatched shapes\<close>

lemma isSameMember_shapes:
  "isSameMember left right \<Longrightarrow>
   isPropertyAccessExpression left \<and> isPropertyAccessExpression right"
  by (cases left; cases right) simp_all

lemma isSameElementAccess_shapes:
  "isSameElementAccess left right \<Longrightarrow>
   isElementAccessExpression left \<and> isElementAccessExpression right"
  by (cases left; cases right) simp_all

lemma doCheck_mismatch:
  assumes p: "optionsProps (options ctx) = Inr p"
    and shapes: "\<not> (isIdentifier left \<and> isIdentifier right
        \<or> isArrayLiteralExpression left \<and> isArrayLiteralExpression right
        \<or> isObjectLiteralExpression left \<and> isObjectLiteralExpression right
        \<or> isShorthandPropertyAssignment left \<and> isShorthandPropertyAssignment right
        \<or> isPropertyAccessExpression left \<and> isPropertyAccessExpression right
        \<or> isElementAccessExpression left \<and> isElementAccessExpression right)"
  shows "doCheck ctx (Some left) (Some right) = Inr []"
proof (cases left)
  case (Identifier r t)
  with p shapes show ?thesis
    by (simp add: doCheck_Identifier isSameIdentifier_def)
next
  case (PropertyAccessExpression r e n)
  with p shapes isSameMember_shapes [of left right] show ?thesis
    by (auto simp: doCheck_PropertyAccessExpression simp del: isSameMember.simps)
next
  case (ElementAccessExpression r e a)
  with p shapes isSameElementAccess_shapes [of left right] show ?thesis
    by (auto simp: doCheck_ElementAccessExpression simp del: isSameElementAccess.simps)
next
  case (ArrayLiteralExpression r es)
  with p shapes show ?thesis by (simp add: doCheck_array_other)
next
  case (ObjectLiteralExpression r ps)
  with p shapes show ?thesis by (simp add: doCheck_object_other)
next
  case (ShorthandPropertyAssignment r n i)
  with p shapes show ?thesis by (simp add: doCheck_shorthand_other)
qed (use p in \<open>simp_all add: doCheck_other_kinds\<close>)

lemma shape_mismatch_findings:
  assumes "optionsProps opt = Inr p"
  shows "walk \<lparr>sourceFile = ast_shape_mismatch, sourceText = src_shape_mismatch,
               options = opt\<rparr> = Inr []"
  using assms
  by (simp add: walk_def evaluation ast_shape_mismatch_def src_shape_mismatch_def)

text \<open>
  Claim C8. The pairwise check returns without a finding and without an error when either
  side is absent, whatever the options are. When the options are not \<open>null\<close> it returns for
  every pair, and a pair whose two sides are not of one of the six shapes that the rules
  compare (two identifiers, two array literals, two object literals, two shorthand
  properties, two property accesses, two element accesses) has no finding; so \<open>a = {a};\<close> has
  no finding and raises nothing.
\<close>

theorem doCheck_silent_on_absent_or_mismatched:
  "doCheck ctx None right' = Inr []
   \<and> doCheck ctx left' None = Inr []
   \<and> (options ctx \<noteq> JNull \<longrightarrow>
        (\<exists>found. doCheck ctx left' right' = Inr found)
        \<and> (\<not> (isIdentifier left \<and> isIdentifier right
              \<or> isArrayLiteralExpression left \<and> isArrayLiteralExpression right
              \<or> isObjectLiteralExpression left \<and> isObjectLiteralExpression right
              \<or> isShorthandPropertyAssignment left \<and> isShorthandPropertyAssignment right
              \<or> isPropertyAccessExpression left \<and> isPropertyAccessExpression right
              \<or> isElementAccessExpression left \<and> isElementAccessExpression right)
            \<longrightarrow> doCheck ctx (Some left) (Some right) = Inr [])
        \<and> Rule_apply [options ctx] ast_shape_mismatch src_shape_mismatch = Inr [])
   \<and> Rule_apply [] ast_shape_mismatch src_shape_mismatch = Inr []"
proof -
  have "doCheck ctx left' None = Inr []"
    by (cases left') simp_all
  moreover have "(\<exists>found. doCheck ctx left' right' = Inr found)
        \<and> (\<not> (isIdentifier left \<and> isIdentifier right
              \<or> isArrayLiteralExpression left \<and> isArrayLiteralExpression right
              \<or> isObjectLiteralExpression left \<and> isObjectLiteralExpression right
              \<or> isShorthandPropertyAssignment left \<and> isShorthandPropertyAssignment right
              \<or> isPropertyAccessExpression left \<and> isPropertyAccessExpression right
              \<or> isElementAccessExpression left \<and> isElementAccessExpression right)
            \<longrightarrow> doCheck ctx (Some left) (Some right) = Inr [])
        \<and> Rule_apply [options ctx] ast_shape_mismatch src_shape_mismatch = Inr []"
    if notnull: "options ctx \<noteq> JNull"
  proof -
    obtain p where p: "optionsProps (options ctx) = Inr p"
      using notnull optionsProps_not_null by blast
    show ?thesis
      using doCheck_returns(1) [OF p] doCheck_mismatch [OF p, of left right]
      by (simp add: Rule_apply_Cons shape_mismatch_findings [OF p])
  qed
  ultimately show ?thesis
    by (simp add: Rule_apply_Nil shape_mismatch_findings [OF default_props])
qed

theorem doCheck_silent_on_absent_or_mismatched_witness:
  "JObject [] \<noteq> JNull
   \<and> \<not> isObjectLiteralExpression (Identifier (0, 1) ''a'')
   \<and> doCheck \<lparr>sourceFile = ast_shape_mismatch, sourceText = src_shape_mismatch,
               options = JObject []\<rparr>
       (Some (Identifier (0, 1) ''a''))
       (Some (ObjectLiteralExpression (4, 7)
          [ShorthandPropertyAssignment (5, 6) (Identifier (5, 6) ''a'') None])) = Inr []"
  using doCheck_silent_on_absent_or_mismatched
    [where ctx = "\<lparr>sourceFile = ast_shape_mismatch, sourceText = src_shape_mismatch,
                    options = JObject []\<rparr>"
       and left = "Identifier (0, 1) ''a''"
       and right = "ObjectLiteralExpression (4, 7)
          [ShorthandPropertyAssignment (5, 6) (Identifier (5, 6) ''a'') None]"]
  by simp

subsection \<open>The options\<close>

lemma member_findings:
  assumes "optionsProps opt = Inr p"
  shows "walk \<lparr>sourceFile = ast_member, sourceText = src_member, options = opt\<rparr> =
    Inr (if p then [\<lparr>range = (8, 13), message = ''variable 'a.b.c' is assigned to itself.''\<rparr>]
         else [])"
  using assms
  by (simp add: walk_def evaluation ast_member_def src_member_def)

lemma elem_string_findings_off:
  assumes "optionsProps opt = Inr False"
  shows "walk \<lparr>sourceFile = ast_elem_string, sourceText = src_elem_string, options = opt\<rparr> =
    Inr []"
  using assms
  by (simp add: walk_def evaluation ast_elem_string_def src_elem_string_def)

lemma doCheck_accesses_off:
  assumes "optionsProps (options ctx) = Inr False"
    and "isPropertyAccessExpression left \<or> isElementAccessExpression left"
  shows "doCheck ctx (Some left) (Some right) = Inr []"
  using assms
  by (cases left)
    (simp_all add: doCheck_PropertyAccessExpression doCheck_ElementAccessExpression
      del: isSameMember.simps isSameElementAccess.simps)

text \<open>
  Claim C9. The default \<open>{props: true}\<close> is used only when there are no rule arguments.
  Otherwise the first argument is the options as it stands; an object without the field
  \<open>props\<close>, or with \<open>props\<close> false, turns the property-access and element-access rules
  off: a pair whose left side is a property access or an element access has no finding. So
  \<open>a.b.c = a.b.c;\<close> and \<open>a["x"] = a["x"];\<close> have one finding each without arguments, and
  none with the argument \<open>{}\<close> or \<open>{props: false}\<close>.
\<close>

theorem default_options_only_without_arguments:
  \<open>Rule_apply [] file fileText =
      applyWithFunction file fileText walk (JObject [(''props'', JBool True)])
   \<and> Rule_apply (opt # others) file fileText = applyWithFunction file fileText walk opt
   \<and> (options ctx = JObject members
       \<and> (map_of members ''props'' = None \<or> map_of members ''props'' = Some (JBool False))
       \<and> (isPropertyAccessExpression left \<or> isElementAccessExpression left)
       \<longrightarrow> doCheck ctx (Some left) (Some right) = Inr [])
   \<and> Rule_apply [] ast_member src_member =
       Inr [\<lparr>range = (8, 13), message = ''variable 'a.b.c' is assigned to itself.''\<rparr>]
   \<and> Rule_apply [JObject []] ast_member src_member = Inr []
   \<and> Rule_apply [JObject [(''props'', JBool False)]] ast_member src_member = Inr []
   \<and> Rule_apply [] ast_elem_string src_elem_string =
       Inr [\<lparr>range = (9, 15), message = ''variable 'a["x"]' is assigned to itself.''\<rparr>]
   \<and> Rule_apply [JObject []] ast_elem_string src_elem_string = Inr []
   \<and> Rule_apply [JObject [(''props'', JBool False)]] ast_elem_string src_elem_string = Inr []\<close>
proof -
  have off: "doCheck ctx (Some left) (Some right) = Inr []"
    if "options ctx = JObject members"
      and "map_of members ''props'' = None \<or> map_of members ''props'' = Some (JBool False)"
      and "isPropertyAccessExpression left \<or> isElementAccessExpression left"
  proof -
    have "optionsProps (options ctx) = Inr False"
      using that(1,2) by auto
    then show ?thesis
      using that(3) by (rule doCheck_accesses_off)
  qed
  have "Rule_apply [] file fileText =
      applyWithFunction file fileText walk (JObject [(''props'', JBool True)])"
    and "Rule_apply (opt # others) file fileText = applyWithFunction file fileText walk opt"
    by (simp_all add: Rule_apply_def)
  then show ?thesis
    using off
    by (simp add: Rule_apply_Nil Rule_apply_Cons member_findings [of _ True]
        member_findings [of _ False] elem_string_findings elem_string_findings_off)
qed

theorem default_options_only_without_arguments_witness:
  "map_of [(''other'', JBool True)] ''props'' = None
   \<and> doCheck \<lparr>sourceFile = ast_member, sourceText = src_member,
               options = JObject [(''other'', JBool True)]\<rparr>
       (Some (PropertyAccessExpression (0, 5)
          (PropertyAccessExpression (0, 3) (Identifier (0, 1) ''a'') (Identifier (2, 3) ''b''))
          (Identifier (4, 5) ''c'')))
       (Some (PropertyAccessExpression (8, 13)
          (PropertyAccessExpression (8, 11) (Identifier (8, 9) ''a'') (Identifier (10, 11) ''b''))
          (Identifier (12, 13) ''c''))) = Inr []"
  using default_options_only_without_arguments
    [where ctx = "\<lparr>sourceFile = ast_member, sourceText = src_member,
                    options = JObject [(''other'', JBool True)]\<rparr>"
       and members = "[(''other'', JBool True)]"
       and left = "PropertyAccessExpression (0, 5)
          (PropertyAccessExpression (0, 3) (Identifier (0, 1) ''a'') (Identifier (2, 3) ''b''))
          (Identifier (4, 5) ''c'')"
       and right = "PropertyAccessExpression (8, 13)
          (PropertyAccessExpression (8, 11) (Identifier (8, 9) ''a'') (Identifier (10, 11) ''b''))
          (Identifier (12, 13) ''c'')"]
  by simp

subsection \<open>What the option \<open>props\<close> does not touch\<close>

declare withoutAccess.simps [simp del]

lemma withoutAccess_child:
  "withoutAccess n \<Longrightarrow> c \<in> set (children n) \<Longrightarrow> withoutAccess c"
  by (subst (asm) withoutAccess.simps) (simp add: list_all_iff)

lemma withoutAccess_shape:
  "withoutAccess n \<Longrightarrow> \<not> isPropertyAccessExpression n \<and> \<not> isElementAccessExpression n"
  by (subst (asm) withoutAccess.simps) simp

lemma report_options [simp]: "report (ctx\<lparr>options := opt\<rparr>) n = report ctx n"
  by (simp add: report_def getText_def)

lemma doCheck_without_access:
  assumes p: "optionsProps (options ctx) = Inr p" and q: "optionsProps opt = Inr q"
  shows "withoutAccess left \<Longrightarrow>
    doCheck (ctx\<lparr>options := opt\<rparr>) (Some left) (Some right) = doCheck ctx (Some left) (Some right)"
proof (induction left arbitrary: right rule: measure_induct_rule [where f = size])
  case (less left)
  let ?ctx' = "ctx\<lparr>options := opt\<rparr>"
  have q': "optionsProps (options ?ctx') = Inr q"
    using q by simp
  have below: "doCheck ?ctx' (Some c) (Some r) = doCheck ctx (Some c) (Some r)"
    if "c \<in> set (children left)" for c r
    using less.IH [of c r] size_children [OF that] withoutAccess_child [OF less.prems that]
    by simp
  show ?case
  proof (cases left)
    case (Identifier r t)
    then show ?thesis using p q by (simp add: doCheck_Identifier)
  next
    case (PropertyAccessExpression r e n)
    then show ?thesis using withoutAccess_shape [OF less.prems] by simp
  next
    case (ElementAccessExpression r e a)
    then show ?thesis using withoutAccess_shape [OF less.prems] by simp
  next
    case (ArrayLiteralExpression r1 ls)
    show ?thesis
    proof (cases right)
      case (ArrayLiteralExpression r2 rs)
      have "projr (doCheck ?ctx' (Some l) (Some r)) = projr (doCheck ctx (Some l) (Some r))"
        if "(l, r) \<in> set (take k (zip ls rs))" for l r k
      proof -
        have "l \<in> set ls"
          using that by (meson in_set_takeD set_zip_leftD)
        then show ?thesis
          using below [of l r] \<open>left = _\<close> by simp
      qed
      then show ?thesis
        unfolding \<open>left = _\<close> \<open>right = _\<close> doCheck_arrays_eq [OF p] doCheck_arrays_eq [OF q']
        by (auto intro!: arg_cong [where f = concat] map_cong)
    qed (use p q \<open>left = _\<close> in \<open>simp_all add: doCheck_array_other\<close>)
  next
    case (ObjectLiteralExpression r1 lps)
    show ?thesis
    proof (cases right)
      case (ObjectLiteralExpression r2 rps)
      have "projr (doCheck ?ctx' (Some lp) (Some rp)) = projr (doCheck ctx (Some lp) (Some rp))"
        if "lp \<in> set lps" for lp rp
        using below [of lp rp] that \<open>left = _\<close> by simp
      then show ?thesis
        unfolding \<open>left = _\<close> \<open>right = _\<close> doCheck_objects_eq [OF p] doCheck_objects_eq [OF q']
        by (auto intro!: arg_cong [where f = concat] map_cong)
    qed (use p q \<open>left = _\<close> in \<open>simp_all add: doCheck_object_other\<close>)
  next
    case (ShorthandPropertyAssignment r1 leftName leftInit)
    show ?thesis
    proof (cases "leftInit = None \<and> isShorthandPropertyAssignment right")
      case True
      then obtain r2 rightName rightInit
        where right: "right = ShorthandPropertyAssignment r2 rightName rightInit"
        by (cases right) auto
      have "doCheck ?ctx' (Some leftName) (Some rightName) =
          doCheck ctx (Some leftName) (Some rightName)"
        using below [of leftName rightName] \<open>left = _\<close> by simp
      then show ?thesis
        using p q True \<open>left = _\<close> right
        by (cases "doCheck ctx (Some leftName) (Some rightName)")
          (simp_all add: doCheck_shorthands)
    next
      case False
      then show ?thesis
        using p q \<open>left = _\<close> by (simp add: doCheck_shorthand_other)
    qed
  qed (use p q in \<open>simp_all add: doCheck_other_kinds\<close>)
qed

lemma assignment_findings:
  assumes "optionsProps opt = Inr p"
  shows "walk \<lparr>sourceFile = ast_assignment x ''='' EqualsToken,
               sourceText = src_assignment x ''='', options = opt\<rparr> =
    Inr [\<lparr>range = (length x + 3, 2 * length x + 3),
          message = ''variable '' @ CHR 0x27 # x @ CHR 0x27 # '' is assigned to itself.''\<rparr>]"
  using assms getText_assignment_right [of x "''=''"]
  by (simp add: ast_assignment_def walk_statement recur_assignment doCheck_same_identifier)

lemma recur_field_self_options:
  "recur (ctx\<lparr>options := opt\<rparr>)
      (PropertyDeclaration r ms (Identifier nr foo) anns
         (Some (PropertyAccessExpression ir (Token tr ThisKeyword) (Identifier pr foo)))) =
     andThen (visitEach (recur (ctx\<lparr>options := opt\<rparr>)) (ms @ anns))
       (\<lambda>below. Inr (\<lparr>range = ir,
                        message = ''variable '' @ CHR 0x27 # take (snd ir - fst ir) (drop (fst ir) (sourceText ctx))
                         @ CHR 0x27 # '' is assigned to itself.''\<rparr> # below))"
  by (simp add: recur_field_self)

text \<open>
  Claim C3. The option \<open>props\<close> is on when there are no rule arguments, and it turns the
  property-access and element-access rules on and off: a pair whose left side is a property
  access (an element access) has a finding exactly when the option is on and the two sides
  are the same member (the same element access). So \<open>a.b.c = a.b.c;\<close> has one finding with
  the option on and none with it off. The other checks do not depend on it: the check of a
  pair whose left side holds no property access and no element access gives the same
  result under any two options that are not \<open>null\<close>, and a field initialised from its own
  property of \<open>this\<close> has its finding under any options; with the option off, \<open>x = x;\<close>,
  \<open>[a, b] = [a, b];\<close>, \<open>({a, b} = {a, b});\<close> and the field \<open>foo = this.foo\<close> keep their
  findings.
\<close>

theorem props_option_gates_member_rules:
  assumes "optionsProps (options ctx) = Inr p"
  shows "Rule_apply [] file fileText =
        Rule_apply [JObject [(''props'', JBool True)]] file fileText
    \<and> doCheck ctx (Some (PropertyAccessExpression r e n)) (Some right) =
        Inr (if p \<and> isSameMember (PropertyAccessExpression r e n) right
             then [report ctx right] else [])
    \<and> doCheck ctx (Some (ElementAccessExpression r e a)) (Some right) =
        Inr (if p \<and> isSameElementAccess (ElementAccessExpression r e a) right
             then [report ctx right] else [])
    \<and> (withoutAccess left \<and> opt \<noteq> JNull \<longrightarrow>
         doCheck (ctx\<lparr>options := opt\<rparr>) (Some left) (Some right) =
         doCheck ctx (Some left) (Some right))
    \<and> recur (ctx\<lparr>options := opt'\<rparr>)
         (PropertyDeclaration r ms (Identifier nr foo) anns
            (Some (PropertyAccessExpression ir (Token tr ThisKeyword) (Identifier pr foo)))) =
       andThen (visitEach (recur (ctx\<lparr>options := opt'\<rparr>)) (ms @ anns))
         (\<lambda>below. Inr (\<lparr>range = ir,
                          message = ''variable '' @ CHR 0x27 # take (snd ir - fst ir) (drop (fst ir) (sourceText ctx))
                         @ CHR 0x27 # '' is assigned to itself.''\<rparr> # below))
    \<and> Rule_apply [] ast_member src_member =
        Inr [\<lparr>range = (8, 13), message = ''variable 'a.b.c' is assigned to itself.''\<rparr>]
    \<and> Rule_apply [JObject [(''props'', JBool True)]] ast_member src_member =
        Inr [\<lparr>range = (8, 13), message = ''variable 'a.b.c' is assigned to itself.''\<rparr>]
    \<and> Rule_apply [JObject [(''props'', JBool False)]] ast_member src_member = Inr []
    \<and> Rule_apply [JObject [(''props'', JBool False)]]
          (ast_assignment x ''='' EqualsToken) (src_assignment x ''='') =
        Inr [\<lparr>range = (length x + 3, 2 * length x + 3),
              message = ''variable '' @ CHR 0x27 # x @ CHR 0x27 # '' is assigned to itself.''\<rparr>]
    \<and> Rule_apply [JObject [(''props'', JBool False)]] ast_arr_plain src_arr_plain =
        Inr [\<lparr>range = (10, 11), message = ''variable 'a' is assigned to itself.''\<rparr>,
             \<lparr>range = (13, 14), message = ''variable 'b' is assigned to itself.''\<rparr>]
    \<and> Rule_apply [JObject [(''props'', JBool False)]] ast_obj_plain src_obj_plain =
        Inr [\<lparr>range = (11, 12), message = ''variable 'a' is assigned to itself.''\<rparr>,
             \<lparr>range = (14, 15), message = ''variable 'b' is assigned to itself.''\<rparr>]
    \<and> Rule_apply [JObject [(''props'', JBool False)]] ast_field_self src_field_self =
        Inr [\<lparr>range = (16, 24), message = ''variable 'this.foo' is assigned to itself.''\<rparr>]"
proof -
  have independent: "doCheck (ctx\<lparr>options := opt\<rparr>) (Some left) (Some right) =
      doCheck ctx (Some left) (Some right)"
    if free: "withoutAccess left" and notnull: "opt \<noteq> JNull"
  proof -
    obtain q where "optionsProps opt = Inr q"
      using notnull optionsProps_not_null by blast
    with assms show ?thesis
      using free by (rule doCheck_without_access)
  qed
  show ?thesis
    using assms independent
    by (simp add: Rule_apply_Nil Rule_apply_Cons doCheck_PropertyAccessExpression
        doCheck_ElementAccessExpression recur_field_self_options
        assignment_findings [OF props_off] field_self_findings
        member_findings [OF default_props] member_findings [OF props_off]
        arr_plain_findings [OF props_off] obj_plain_findings [OF props_off]
        del: isSameMember.simps isSameElementAccess.simps)
qed

theorem props_option_gates_member_rules_witness:
  "optionsProps (JObject [(''props'', JBool False)]) = Inr False
   \<and> withoutAccess (ArrayLiteralExpression (0, 6) [Identifier (1, 2) ''a'', Identifier (4, 5) ''b''])
   \<and> JObject [(''props'', JBool True)] \<noteq> JNull
   \<and> doCheck \<lparr>sourceFile = ast_member, sourceText = src_member,
               options = JObject [(''props'', JBool False)]\<rparr>
       (Some (PropertyAccessExpression (0, 5)
          (PropertyAccessExpression (0, 3) (Identifier (0, 1) ''a'') (Identifier (2, 3) ''b''))
          (Identifier (4, 5) ''c'')))
       (Some (PropertyAccessExpression (8, 13)
          (PropertyAccessExpression (8, 11) (Identifier (8, 9) ''a'') (Identifier (10, 11) ''b''))
          (Identifier (12, 13) ''c''))) = Inr []
   \<and> doCheck \<lparr>sourceFile = ast_member, sourceText = src_member,
               options = JObject [(''props'', JBool True)]\<rparr>
       (Some (ArrayLiteralExpression (0, 6) [Identifier (1, 2) ''a'', Identifier (4, 5) ''b'']))
       (Some (ArrayLiteralExpression (9, 15) [Identifier (10, 11) ''a'', Identifier (13, 14) ''b''])) =
     doCheck \<lparr>sourceFile = ast_member, sourceText = src_member,
               options = JObject [(''props'', JBool False)]\<rparr>
       (Some (ArrayLiteralExpression (0, 6) [Identifier (1, 2) ''a'', Identifier (4, 5) ''b'']))
       (Some (ArrayLiteralExpression (9, 15) [Identifier (10, 11) ''a'', Identifier (13, 14) ''b'']))"
proof -
  have free: "withoutAccess
      (ArrayLiteralExpression (0, 6) [Identifier (1, 2) ''a'', Identifier (4, 5) ''b''])"
    by (simp add: withoutAccess.simps)
  show ?thesis
    using free props_option_gates_member_rules
      [where ctx = "\<lparr>sourceFile = ast_member, sourceText = src_member,
                      options = JObject [(''props'', JBool False)]\<rparr>"
         and p = False and r = "(0, 5)"
         and e = "PropertyAccessExpression (0, 3) (Identifier (0, 1) ''a'') (Identifier (2, 3) ''b'')"
         and n = "Identifier (4, 5) ''c''"
         and right = "PropertyAccessExpression (8, 13)
            (PropertyAccessExpression (8, 11) (Identifier (8, 9) ''a'') (Identifier (10, 11) ''b''))
            (Identifier (12, 13) ''c'')",
        THEN conjunct2, THEN conjunct1]
      props_option_gates_member_rules
      [where ctx = "\<lparr>sourceFile = ast_member, sourceText = src_member,
                      options = JObject [(''props'', JBool False)]\<rparr>"
         and p = False and opt = "JObject [(''props'', JBool True)]"
         and left = "ArrayLiteralExpression (0, 6) [Identifier (1, 2) ''a'', Identifier (4, 5) ''b'']"
         and right = "ArrayLiteralExpression (9, 15)
            [Identifier (10, 11) ''a'', Identifier (13, 14) ''b'']",
        THEN conjunct2, THEN conjunct2, THEN conjunct2, THEN conjunct1]
    by simp
qed

end
